theory Spec2Isabelle
  imports Complex_Main "HOL-Library.Word"
begin

section \<open>Machine integers\<close>

text \<open>
  Go's \<open>int64\<close>, \<open>uint64\<close> and \<open>time.Duration\<close> (an \<open>int64\<close> count of nanoseconds)
  are 64-bit words: \<open>+\<close>, \<open>*\<close> and unary minus wrap, \<open>sint\<close> reads the signed value,
  \<open>unat\<close> the unsigned one. The platform is taken to be a 64-bit one, so \<open>int\<close> is an
  \<open>int64\<close> and \<open>uintptr\<close> is a \<open>uint64\<close>.
\<close>

type_synonym int64 = "64 word"
type_synonym uint64 = "64 word"
type_synonym Duration = "64 word"

definition Second :: Duration where
  "Second = 1000000000"

section \<open>strconv: parsing integers\<close>

text \<open>
  \<open>strconv.ParseUint\<close>, \<open>strconv.ParseInt\<close> and \<open>strconv.Atoi\<close> belong to the
  standard library the handlers call; the definitions below follow the library's
  documented behaviour, with the returned value and the error kept side by side as Go does.
  With \<open>base = 0\<close> the base is read off the prefix of the string: \<open>0x\<close> or \<open>0X\<close> for 16,
  a leading \<open>0\<close> for 8, and 10 otherwise. A syntax error returns the value 0; a range
  error returns the nearest representable value.
\<close>

datatype NumError = ErrSyntax | ErrRange | ErrBase | ErrBitSize

definition digit_value :: "char \<Rightarrow> nat option" where
  "digit_value c =
     (let b = (of_char c :: nat) in
      if 48 \<le> b \<and> b \<le> 57 then Some (b - 48)
      else if 97 \<le> b \<and> b \<le> 122 then Some (b - 97 + 10)
      else if 65 \<le> b \<and> b \<le> 90 then Some (b - 65 + 10)
      else None)"

fun ParseUint_digits ::
  "nat \<Rightarrow> uint64 \<Rightarrow> uint64 \<Rightarrow> uint64 \<Rightarrow> string \<Rightarrow> uint64 \<times> NumError option" where
  "ParseUint_digits base cutoff maxVal n [] = (n, None)"
| "ParseUint_digits base cutoff maxVal n (c # s) =
     (case digit_value c of
        None \<Rightarrow> (0, Some ErrSyntax)
      | Some d \<Rightarrow>
          if base \<le> d then (0, Some ErrSyntax)
          else if cutoff \<le> n then (maxVal, Some ErrRange)
          else
            (let n' = n * of_nat base; n1 = n' + of_nat d in
             if n1 < n' \<or> maxVal < n1 then (maxVal, Some ErrRange)
             else ParseUint_digits base cutoff maxVal n1 s))"

definition maxUint64 :: uint64 where
  "maxUint64 = 18446744073709551615"

definition ParseUint_in_base :: "string \<Rightarrow> nat \<Rightarrow> int \<Rightarrow> uint64 \<times> NumError option" where
  "ParseUint_in_base s base bitSize =
     (let bitSize = (if bitSize = 0 then 64 else bitSize) in
      if bitSize < 0 \<or> 64 < bitSize then (0, Some ErrBitSize)
      else ParseUint_digits base (maxUint64 div of_nat base + 1)
             (push_bit (nat bitSize) 1 - 1) 0 s)"

definition ParseUint :: "string \<Rightarrow> int \<Rightarrow> int \<Rightarrow> uint64 \<times> NumError option" where
  "ParseUint s base bitSize =
     (if s = [] then (0, Some ErrSyntax)
      else if 2 \<le> base \<and> base \<le> 36 then ParseUint_in_base s (nat base) bitSize
      else if base = 0 then
        (if hd s = CHR ''0'' \<and> 1 < length s \<and> (s ! 1 = CHR ''x'' \<or> s ! 1 = CHR ''X'') then
           (if length s < 3 then (0, Some ErrSyntax)
            else ParseUint_in_base (drop 2 s) 16 bitSize)
         else if hd s = CHR ''0'' then ParseUint_in_base (drop 1 s) 8 bitSize
         else ParseUint_in_base s 10 bitSize)
      else (0, Some ErrBase))"

definition ParseInt :: "string \<Rightarrow> int \<Rightarrow> int \<Rightarrow> int64 \<times> NumError option" where
  "ParseInt s base bitSize =
     (if s = [] then (0, Some ErrSyntax)
      else
        (let neg = (hd s = CHR ''-'');
             s1 = (if hd s = CHR ''+'' \<or> hd s = CHR ''-'' then tl s else s);
             (un, err) = ParseUint s1 base bitSize
         in if err \<noteq> None \<and> err \<noteq> Some ErrRange then (0, err)
            else
              (let bitSize = (if bitSize = 0 then 64 else bitSize);
                   cutoff = (push_bit (nat (bitSize - 1)) 1 :: uint64)
               in if \<not> neg \<and> cutoff \<le> un then (cutoff - 1, Some ErrRange)
                  else if neg \<and> cutoff < un then (- cutoff, Some ErrRange)
                  else (if neg then - un else un, None))))"

definition Atoi :: "string \<Rightarrow> int64 \<times> NumError option" where
  "Atoi s = ParseInt s 10 0"

section \<open>float64\<close>

text \<open>
  A \<open>float64\<close> is a finite value (the rational it denotes), an infinity or a NaN. The
  comparisons are the IEEE ones on the denoted values: every comparison with a NaN is
  false. The conversion \<open>float64(n)\<close> of an \<open>int64\<close> rounds to 53 significant bits, ties
  to even.
\<close>

datatype float64 = Finite rat | PosInf | NegInf | NaN

fun fle :: "float64 \<Rightarrow> float64 \<Rightarrow> bool" where
  "fle NaN _ = False"
| "fle _ NaN = False"
| "fle NegInf _ = True"
| "fle _ PosInf = True"
| "fle (Finite a) (Finite b) = (a \<le> b)"
| "fle PosInf _ = False"
| "fle _ NegInf = False"

fun flt :: "float64 \<Rightarrow> float64 \<Rightarrow> bool" where
  "flt NaN _ = False"
| "flt _ NaN = False"
| "flt (Finite a) (Finite b) = (a < b)"
| "flt PosInf _ = False"
| "flt _ NegInf = False"
| "flt NegInf _ = True"
| "flt _ PosInf = True"

definition fge :: "float64 \<Rightarrow> float64 \<Rightarrow> bool" where
  "fge a b = fle b a"

fun bit_length :: "nat \<Rightarrow> nat" where
  "bit_length n = (if n = 0 then 0 else Suc (bit_length (n div 2)))"

declare bit_length.simps [simp del]

definition round_to_53_bits :: "int \<Rightarrow> int" where
  "round_to_53_bits n =
     (let a = nat \<bar>n\<bar>; k = bit_length a - 53 in
      if k = 0 then n
      else
        (let q = a div 2 ^ k; r = a mod 2 ^ k; h = 2 ^ (k - 1);
             q1 = (if h < r \<or> (r = h \<and> odd q) then q + 1 else q)
         in sgn n * int (q1 * 2 ^ k)))"

definition float64_of_int64 :: "int64 \<Rightarrow> float64" where
  "float64_of_int64 x = Finite (of_int (round_to_53_bits (sint x)))"

text \<open>
  Arithmetic on \<open>float64\<close> rounds the exact result to the nearest value of the format,
  ties to even: 53 significant bits, the exponent of a normal value from -1022 up, and
  an infinity from \<open>2 powi 1024\<close> on. \<open>ilog2 x\<close> is the exponent of a positive \<open>x\<close>, the
  largest \<open>e\<close> with \<open>2 powi e \<le> x\<close>. The sign of a zero is not kept: no comparison and no
  conversion of the handlers tells the two zeros apart.
\<close>

definition round_half_even :: "rat \<Rightarrow> int" where
  "round_half_even x =
     (let f = \<lfloor>x\<rfloor>; d = x - of_int f in
      if d < 1 / 2 then f
      else if 1 / 2 < d then f + 1
      else if even f then f else f + 1)"

definition ilog2 :: "rat \<Rightarrow> int" where
  "ilog2 x =
     (if 1 \<le> x then int (bit_length (nat \<lfloor>x\<rfloor>)) - 1
      else - int (bit_length (nat (\<lceil>1 / x\<rceil> - 1))))"

definition round_float64 :: "rat \<Rightarrow> float64" where
  "round_float64 x =
     (if x = 0 then Finite 0
      else
        (let e = max (ilog2 \<bar>x\<bar>) (- 1022);
             ulp = 2 powi (e - 52);
             y = of_int (round_half_even (\<bar>x\<bar> / ulp)) * ulp
         in if 2 powi 1024 \<le> y then (if 0 < x then PosInf else NegInf)
            else Finite (sgn x * y)))"

fun fmul :: "float64 \<Rightarrow> float64 \<Rightarrow> float64" where
  "fmul NaN _ = NaN"
| "fmul _ NaN = NaN"
| "fmul (Finite a) (Finite b) = round_float64 (a * b)"
| "fmul (Finite a) PosInf = (if a = 0 then NaN else if 0 < a then PosInf else NegInf)"
| "fmul (Finite a) NegInf = (if a = 0 then NaN else if 0 < a then NegInf else PosInf)"
| "fmul PosInf (Finite b) = (if b = 0 then NaN else if 0 < b then PosInf else NegInf)"
| "fmul NegInf (Finite b) = (if b = 0 then NaN else if 0 < b then NegInf else PosInf)"
| "fmul PosInf PosInf = PosInf"
| "fmul PosInf NegInf = NegInf"
| "fmul NegInf PosInf = NegInf"
| "fmul NegInf NegInf = PosInf"

text \<open>
  What the model takes from outside the sources as a parameter:
  \<open>ParseFloat_number s\<close> is \<open>strconv.ParseFloat(s, 64)\<close>, value and error side by side,
  on a string that is a number or malformed (the special values are recognised below);
  \<open>Seconds d\<close> is \<open>d.Seconds()\<close> of package \<open>time\<close>;
  \<open>int64_overflow x\<close> is the result of converting to \<open>int64\<close> a float that no \<open>int64\<close>
  represents, which the language leaves to the implementation;
  and \<open>Sprintf format\<close> is what \<open>fmt.Fprintf(w, format)\<close> writes when it is called with a
  format and no operand.
\<close>

record platform =
  ParseFloat_number :: "string \<Rightarrow> float64 \<times> NumError option"
  Seconds :: "Duration \<Rightarrow> float64"
  int64_overflow :: "float64 \<Rightarrow> int64"
  Sprintf :: "string \<Rightarrow> string"

text \<open>
  \<open>strconv.ParseFloat\<close> recognises, ignoring case, the strings \<open>NaN\<close>, and \<open>Inf\<close> and
  \<open>Infinity\<close> with an optional sign, as the special values, with no error.
\<close>

definition to_lower :: "char \<Rightarrow> char" where
  "to_lower c =
     (let b = (of_char c :: nat) in if 65 \<le> b \<and> b \<le> 90 then char_of (b + 32) else c)"

definition equalIgnoreCase :: "string \<Rightarrow> string \<Rightarrow> bool" where
  "equalIgnoreCase s1 s2 = (map to_lower s1 = map to_lower s2)"

definition special :: "string \<Rightarrow> float64 option" where
  "special s =
     (if s = [] then None
      else if hd s = CHR ''+'' then
        (if equalIgnoreCase s ''+inf'' \<or> equalIgnoreCase s ''+infinity'' then Some PosInf
         else None)
      else if hd s = CHR ''-'' then
        (if equalIgnoreCase s ''-inf'' \<or> equalIgnoreCase s ''-infinity'' then Some NegInf
         else None)
      else if hd s = CHR ''n'' \<or> hd s = CHR ''N'' then
        (if equalIgnoreCase s ''nan'' then Some NaN else None)
      else if hd s = CHR ''i'' \<or> hd s = CHR ''I'' then
        (if equalIgnoreCase s ''inf'' \<or> equalIgnoreCase s ''infinity'' then Some PosInf
         else None)
      else None)"

definition ParseFloat :: "platform \<Rightarrow> string \<Rightarrow> float64 \<times> NumError option" where
  "ParseFloat P s =
     (case special s of
        Some v \<Rightarrow> (v, None)
      | None \<Rightarrow> ParseFloat_number P s)"

text \<open>
  The conversion \<open>int64(x)\<close> of a float, as in \<open>time.Duration(x)\<close>: the fraction is
  dropped (towards zero) when the result is an \<open>int64\<close>.
\<close>

definition int64_of_float64 :: "platform \<Rightarrow> float64 \<Rightarrow> int64" where
  "int64_of_float64 P x =
     (case x of
        Finite q \<Rightarrow>
          (let t = (if 0 \<le> q then \<lfloor>q\<rfloor> else \<lceil>q\<rceil>) in
           if - (2 ^ 63) \<le> t \<and> t < 2 ^ 63 then word_of_int t else int64_overflow P x)
      | _ \<Rightarrow> int64_overflow P x)"

section \<open>net/http: headers, the response writer and the request\<close>

text \<open>
  A header is a map from canonical keys to value lists; \<open>Set\<close> replaces the values of a
  key by one value and \<open>Del\<close> removes the key. Every key the handlers use is already in
  canonical form.
\<close>

type_synonym Header = "string \<Rightarrow> string list option"

definition Header_Set :: "string \<Rightarrow> string \<Rightarrow> Header \<Rightarrow> Header" where
  "Header_Set key v h = h(key \<mapsto> [v])"

definition Header_Del :: "string \<Rightarrow> Header \<Rightarrow> Header" where
  "Header_Del key h = h(key := None)"

text \<open>
  The response writer: the live header map, the status line once it is committed
  together with the headers sent with it, and the body bytes written so far.
  \<open>WriteHeader\<close> commits the status and a snapshot of the header map; a second call has
  no effect. \<open>Write\<close> commits status 200 first when nothing is committed yet.
\<close>

record ResponseWriter =
  rw_header :: Header
  rw_sent :: "(nat \<times> Header) option"
  rw_body :: string

definition setHeader :: "string \<Rightarrow> string \<Rightarrow> ResponseWriter \<Rightarrow> ResponseWriter" where
  "setHeader key v w = w\<lparr>rw_header := Header_Set key v (rw_header w)\<rparr>"

definition delHeader :: "string \<Rightarrow> ResponseWriter \<Rightarrow> ResponseWriter" where
  "delHeader key w = w\<lparr>rw_header := Header_Del key (rw_header w)\<rparr>"

definition WriteHeader :: "nat \<Rightarrow> ResponseWriter \<Rightarrow> ResponseWriter" where
  "WriteHeader status w =
     (case rw_sent w of
        None \<Rightarrow> w\<lparr>rw_sent := Some (status, rw_header w)\<rparr>
      | Some _ \<Rightarrow> w)"

definition Write :: "string \<Rightarrow> ResponseWriter \<Rightarrow> ResponseWriter" where
  "Write bs w = (let w1 = WriteHeader 200 w in w1\<lparr>rw_body := rw_body w1 @ bs\<rparr>)"

definition Fprintln :: "string \<Rightarrow> ResponseWriter \<Rightarrow> ResponseWriter" where
  "Fprintln txt w = Write (txt @ [CHR 0x0A]) w"

definition StatusBadRequest :: nat where "StatusBadRequest = 400"
definition StatusNotFound :: nat where "StatusNotFound = 404"
definition StatusInternalServerError :: nat where "StatusInternalServerError = 500"

text \<open>
  The request: the method, the raw query string, the body as the bytes it delivers and
  the error that ends it, the parsed form that \<open>FormValue\<close> reads (\<open>url.Values\<close>: every key
  has a list of values, empty when the key is absent), and the server found in the
  request context under \<open>http.ServerContextKey\<close>, if any.
\<close>

datatype ioerr = EOF | ErrBufferFull | ReadError string

record Server =
  WriteTimeout :: Duration

record Request =
  Method :: string
  RawQuery :: string
  Body :: "string \<times> ioerr"
  Form :: "string \<Rightarrow> string list"
  ContextServer :: "Server option"

definition FormValue :: "Request \<Rightarrow> string \<Rightarrow> string" where
  "FormValue r key = (case Form r key of [] \<Rightarrow> [] | v # _ \<Rightarrow> v)"

section \<open>The runtime behind the handlers\<close>

text \<open>
  The profiling engines, the collector, the symbol table and the argument vector are
  collaborators of the handlers. The state records what the handlers can observe of
  them, and \<open>calls\<close> logs every call into them in order.
\<close>

datatype call =
    CallStartCPUProfile
  | CallStopCPUProfile
  | CallTraceStart
  | CallTraceStop
  | CallGC
  | CallSleep Duration
  | CallWriteTo string int64

text \<open>
  A registered profile is its serializer: from the calls made so far (the snapshot it
  takes reflects, for one, the collections already run) and the debug level to the bytes
  it writes.
\<close>

type_synonym Profile = "call list \<Rightarrow> int64 \<Rightarrow> string"

record runtime =
  Args :: "string list"
  Lookup :: "string \<Rightarrow> Profile option"
  FuncForPC :: "uint64 \<Rightarrow> string option"
  cpu_profiling :: bool
  cpu_data :: string
  tracing :: bool
  trace_data :: string
  calls :: "call list"

definition called :: "call \<Rightarrow> runtime \<Rightarrow> runtime" where
  "called c rt = rt\<lparr>calls := calls rt @ [c]\<rparr>"

definition GC :: "runtime \<Rightarrow> runtime" where
  "GC rt = called CallGC rt"

definition WriteTo :: "string \<Rightarrow> Profile \<Rightarrow> int64 \<Rightarrow> ResponseWriter \<Rightarrow> runtime \<Rightarrow> ResponseWriter \<times> runtime" where
  "WriteTo name p debug w rt = (Write (p (calls rt) debug) w, called (CallWriteTo name debug) rt)"

text \<open>
  Modelled from the spec: the CPU sampler and the execution tracer of the runtime, which
  are not part of the sources. Each is a process-wide singleton that permits one active
  capture: a start while a capture is active fails at once with an error and leaves the
  capture alone; otherwise it marks the capture active. A stop ends the active capture,
  by which time what it collected has been written to the stream given at the start;
  a stop with no capture active does nothing.
\<close>

definition StartCPUProfile :: "runtime \<Rightarrow> string option \<times> runtime" where
  "StartCPUProfile rt =
     (let rt1 = called CallStartCPUProfile rt in
      if cpu_profiling rt then (Some ''cpu profiling already in use'', rt1)
      else (None, rt1\<lparr>cpu_profiling := True\<rparr>))"

definition StopCPUProfile :: "ResponseWriter \<Rightarrow> runtime \<Rightarrow> ResponseWriter \<times> runtime" where
  "StopCPUProfile w rt =
     (let rt1 = called CallStopCPUProfile rt in
      if cpu_profiling rt then (Write (cpu_data rt) w, rt1\<lparr>cpu_profiling := False\<rparr>)
      else (w, rt1))"

definition trace_Start :: "runtime \<Rightarrow> string option \<times> runtime" where
  "trace_Start rt =
     (let rt1 = called CallTraceStart rt in
      if tracing rt then (Some ''tracing is already enabled'', rt1)
      else (None, rt1\<lparr>tracing := True\<rparr>))"

definition trace_Stop :: "ResponseWriter \<Rightarrow> runtime \<Rightarrow> ResponseWriter \<times> runtime" where
  "trace_Stop w rt =
     (let rt1 = called CallTraceStop rt in
      if tracing rt then (Write (trace_data rt) w, rt1\<lparr>tracing := False\<rparr>)
      else (w, rt1))"

text \<open>
  \<open>sleep\<close> waits for the duration or until the client is gone, whichever comes first;
  of the wait the model keeps the call and the duration asked for.
\<close>

definition sleep :: "Duration \<Rightarrow> runtime \<Rightarrow> runtime" where
  "sleep d rt = called (CallSleep d) rt"

section \<open>The handlers\<close>

definition serveError :: "nat \<Rightarrow> string \<Rightarrow> ResponseWriter \<Rightarrow> ResponseWriter" where
  "serveError status txt w =
     Fprintln txt
       (WriteHeader status
         (delHeader ''Content-Disposition''
           (setHeader ''X-Go-Pprof'' ''1''
             (setHeader ''Content-Type'' ''text/plain; charset=utf-8'' w))))"

definition ServeHTTP :: "string \<Rightarrow> ResponseWriter \<Rightarrow> Request \<Rightarrow> runtime \<Rightarrow> ResponseWriter \<times> runtime" where
  "ServeHTTP name w r rt =
     (let w1 = setHeader ''X-Content-Type-Options'' ''nosniff'' w in
      case Lookup rt name of
        None \<Rightarrow> (serveError StatusNotFound ''Unknown profile'' w1, rt)
      | Some p \<Rightarrow>
          (let gc = fst (Atoi (FormValue r ''gc''));
               rt1 = (if name = ''heap'' \<and> 0 < sint gc then GC rt else rt);
               debug = fst (Atoi (FormValue r ''debug''));
               w2 = (if debug \<noteq> 0
                     then setHeader ''Content-Type'' ''text/plain; charset=utf-8'' w1
                     else setHeader ''Content-Disposition''
                            (''attachment; filename='' @ [CHR 0x22] @ name @ [CHR 0x22])
                            (setHeader ''Content-Type'' ''application/octet-stream'' w1))
           in WriteTo name p debug w2 rt1))"

definition Handler :: "string \<Rightarrow> ResponseWriter \<Rightarrow> Request \<Rightarrow> runtime \<Rightarrow> ResponseWriter \<times> runtime" where
  "Handler name = ServeHTTP name"

definition durationExceedsWriteTimeout :: "platform \<Rightarrow> Request \<Rightarrow> float64 \<Rightarrow> bool" where
  "durationExceedsWriteTimeout P r seconds =
     (case ContextServer r of
        None \<Rightarrow> False
      | Some srv \<Rightarrow> WriteTimeout srv \<noteq> 0 \<and> fge seconds (Seconds P (WriteTimeout srv)))"

text \<open>The value of \<open>sec\<close> in \<open>Profile\<close> once the default is in place.\<close>

definition Profile_seconds :: "Request \<Rightarrow> int64" where
  "Profile_seconds r =
     (let sec = fst (ParseInt (FormValue r ''seconds'') 10 64) in
      if sec = 0 then 30 else sec)"

definition Profile :: "platform \<Rightarrow> ResponseWriter \<Rightarrow> Request \<Rightarrow> runtime \<Rightarrow> ResponseWriter \<times> runtime" where
  "Profile P w r rt =
     (let w1 = setHeader ''X-Content-Type-Options'' ''nosniff'' w;
          sec = Profile_seconds r
      in if durationExceedsWriteTimeout P r (float64_of_int64 sec) then
           (serveError StatusBadRequest ''profile duration exceeds server's WriteTimeout'' w1, rt)
         else
           (let w2 = setHeader ''Content-Disposition''
                       (''attachment; filename='' @ [CHR 0x22] @ ''profile'' @ [CHR 0x22])
                       (setHeader ''Content-Type'' ''application/octet-stream'' w1)
            in case StartCPUProfile rt of
                 (Some err, rt1) \<Rightarrow>
                   (serveError StatusInternalServerError
                      (''Could not enable CPU profiling: '' @ err) w2, rt1)
               | (None, rt1) \<Rightarrow> StopCPUProfile w2 (sleep (sec * Second) rt1)))"

text \<open>The duration that \<open>Trace\<close> sleeps: \<open>time.Duration(sec*float64(time.Second))\<close>.\<close>

definition Trace_duration :: "platform \<Rightarrow> float64 \<Rightarrow> Duration" where
  "Trace_duration P sec = int64_of_float64 P (fmul sec (float64_of_int64 Second))"

text \<open>The value of \<open>sec\<close> in \<open>Trace\<close> once the default is in place.\<close>

definition Trace_seconds :: "platform \<Rightarrow> Request \<Rightarrow> float64" where
  "Trace_seconds P r =
     (let (sec, err) = ParseFloat P (FormValue r ''seconds'') in
      if fle sec (Finite 0) \<or> err \<noteq> None then Finite 1 else sec)"

definition Trace :: "platform \<Rightarrow> ResponseWriter \<Rightarrow> Request \<Rightarrow> runtime \<Rightarrow> ResponseWriter \<times> runtime" where
  "Trace P w r rt =
     (let w1 = setHeader ''X-Content-Type-Options'' ''nosniff'' w;
          sec = Trace_seconds P r
      in if durationExceedsWriteTimeout P r sec then
           (serveError StatusBadRequest ''profile duration exceeds server's WriteTimeout'' w1, rt)
         else
           (let w2 = setHeader ''Content-Disposition''
                       (''attachment; filename='' @ [CHR 0x22] @ ''trace'' @ [CHR 0x22])
                       (setHeader ''Content-Type'' ''application/octet-stream'' w1)
            in case trace_Start rt of
                 (Some err, rt1) \<Rightarrow>
                   (serveError StatusInternalServerError
                      (''Could not enable tracing: '' @ err) w2, rt1)
               | (None, rt1) \<Rightarrow> trace_Stop w2 (sleep (Trace_duration P sec) rt1)))"

section \<open>strings, bufio and fmt\<close>

fun Join :: "string list \<Rightarrow> string \<Rightarrow> string" where
  "Join [] sep = []"
| "Join [x] sep = x"
| "Join (x # y # ys) sep = x @ sep @ Join (y # ys) sep"

text \<open>\<open>strings.Split\<close> for a separator of one byte: the empty string splits into one empty field.\<close>

fun Split :: "string \<Rightarrow> char \<Rightarrow> string list" where
  "Split [] sep = [[]]"
| "Split (c # s) sep =
     (if c = sep then [] # Split s sep
      else (case Split s sep of [] \<Rightarrow> [[c]] | x # xs \<Rightarrow> (c # x) # xs))"

text \<open>
  A \<open>bufio.Reader\<close> of the default size over a source: the bytes of the source not yet
  returned, and the error the source reports once they are exhausted (in a read of its
  own, as \<open>strings.Reader\<close> does). \<open>ReadSlice delim\<close> returns the bytes up to and including
  the first delimiter when that lies within the buffer; the rest of the source with the
  source's error when no delimiter is left and the rest is shorter than the buffer; and
  a full buffer with \<open>ErrBufferFull\<close> otherwise.
\<close>

record Reader =
  unread :: string
  src_err :: ioerr

definition defaultBufSize :: nat where
  "defaultBufSize = 4096"

definition NewReader :: "string \<times> ioerr \<Rightarrow> Reader" where
  "NewReader src = \<lparr>unread = fst src, src_err = snd src\<rparr>"

definition strings_NewReader :: "string \<Rightarrow> string \<times> ioerr" where
  "strings_NewReader s = (s, EOF)"

definition ReadSlice :: "char \<Rightarrow> Reader \<Rightarrow> (string \<times> ioerr option) \<times> Reader" where
  "ReadSlice delim b =
     (let buf = take defaultBufSize (unread b);
          i = length (takeWhile (\<lambda>c. c \<noteq> delim) buf)
      in if i < length buf then
           ((take (i + 1) (unread b), None), b\<lparr>unread := drop (i + 1) (unread b)\<rparr>)
         else if length (unread b) < defaultBufSize then
           ((unread b, Some (src_err b)), b\<lparr>unread := []\<rparr>)
         else
           ((buf, Some ErrBufferFull), b\<lparr>unread := drop defaultBufSize (unread b)\<rparr>))"

fun Error :: "ioerr \<Rightarrow> string" where
  "Error EOF = ''EOF''"
| "Error ErrBufferFull = ''bufio: buffer full''"
| "Error (ReadError msg) = msg"

text \<open>The verb \<open>%#x\<close> on an unsigned integer: \<open>0x\<close> and the lower-case hexadecimal digits.\<close>

definition hex_digit :: "nat \<Rightarrow> char" where
  "hex_digit d = ''0123456789abcdef'' ! d"

fun hex_of_nat :: "nat \<Rightarrow> string" where
  "hex_of_nat n = (if n < 16 then [hex_digit n] else hex_of_nat (n div 16) @ [hex_digit (n mod 16)])"

declare hex_of_nat.simps [simp del]

definition format_sharp_x :: "uint64 \<Rightarrow> string" where
  "format_sharp_x pc = ''0x'' @ hex_of_nat (unat pc)"

section \<open>The handlers of a request body and of the command line\<close>

definition Cmdline :: "platform \<Rightarrow> ResponseWriter \<Rightarrow> Request \<Rightarrow> runtime \<Rightarrow> ResponseWriter \<times> runtime" where
  "Cmdline P w r rt =
     (Write (Sprintf P (Join (Args rt) [CHR 0x00]))
        (setHeader ''Content-Type'' ''text/plain; charset=utf-8''
          (setHeader ''X-Content-Type-Options'' ''nosniff'' w)), rt)"

text \<open>
  What one round of the loop of \<open>Symbol\<close> appends to the buffer for a word: the line of
  the function found at the address the word parses to, nothing when the address is 0
  or no function is found there.
\<close>

definition symbol_line :: "runtime \<Rightarrow> string \<Rightarrow> string" where
  "symbol_line rt word =
     (let pc = fst (ParseUint word 0 64) in
      if pc \<noteq> 0 then
        (case FuncForPC rt pc of
           None \<Rightarrow> []
         | Some name \<Rightarrow> format_sharp_x pc @ '' '' @ name @ [CHR 0x0A])
      else [])"

lemma ReadSlice_consumes:
  assumes "ReadSlice delim b = ((word, None), b1)"
  shows "length (unread b1) < length (unread b)"
proof -
  let ?buf = "take defaultBufSize (unread b)"
  let ?i = "length (takeWhile (\<lambda>c. c \<noteq> delim) ?buf)"
  from assms have found: "?i < length ?buf" and b1: "b1 = b\<lparr>unread := drop (?i + 1) (unread b)\<rparr>"
    by (auto simp: ReadSlice_def Let_def split: if_splits)
  from found have "?i < length (unread b)" by simp
  with b1 show ?thesis by simp
qed

function symbol_loop :: "runtime \<Rightarrow> Reader \<Rightarrow> string \<Rightarrow> string" where
  "symbol_loop rt b buf =
     (case ReadSlice (CHR ''+'') b of
        ((word, None), b1) \<Rightarrow> symbol_loop rt b1 (buf @ symbol_line rt (butlast word))
      | ((word, Some err), b1) \<Rightarrow>
          (let buf1 = buf @ symbol_line rt word in
           if err \<noteq> EOF then buf1 @ ''reading request: '' @ Error err @ [CHR 0x0A]
           else buf1))"
  by pat_completeness auto
termination
  by (relation "measure (\<lambda>(rt, b, buf). length (unread b))")
    (auto dest: ReadSlice_consumes [OF sym])

declare symbol_loop.simps [simp del]

text \<open>The reader \<open>b\<close> of \<open>Symbol\<close>: over the body of a POST, over the raw query otherwise.\<close>

definition Symbol_reader :: "Request \<Rightarrow> Reader" where
  "Symbol_reader r =
     (if Method r = ''POST'' then NewReader (Body r)
      else NewReader (strings_NewReader (RawQuery r)))"

definition Symbol :: "ResponseWriter \<Rightarrow> Request \<Rightarrow> runtime \<Rightarrow> ResponseWriter \<times> runtime" where
  "Symbol w r rt =
     (let w1 = setHeader ''Content-Type'' ''text/plain; charset=utf-8''
                 (setHeader ''X-Content-Type-Options'' ''nosniff'' w);
          buf = ''num_symbols: 1'' @ [CHR 0x0A];
          b = Symbol_reader r
      in (Write (symbol_loop rt b buf) w1, rt))"

text \<open>
  What the successive calls of \<open>ReadSlice\<close> in the loop return, up to the first error:
  the words that came without an error, their delimiter trimmed; the word that came
  with the error; and the error.
\<close>

function read_tokens :: "Reader \<Rightarrow> string list \<times> string \<times> ioerr" where
  "read_tokens b =
     (case ReadSlice (CHR ''+'') b of
        ((word, None), b1) \<Rightarrow>
          (case read_tokens b1 of (ws, lastw, err) \<Rightarrow> (butlast word # ws, lastw, err))
      | ((word, Some err), b1) \<Rightarrow> ([], word, err))"
  by pat_completeness auto
termination
  by (relation "measure (\<lambda>b. length (unread b))") (auto dest: ReadSlice_consumes [OF sym])

declare read_tokens.simps [simp del]

section \<open>What a client sees of a response, and what a handler made the runtime do\<close>

definition sent_status :: "ResponseWriter \<Rightarrow> nat option" where
  "sent_status w = map_option fst (rw_sent w)"

definition sent_header :: "ResponseWriter \<Rightarrow> string \<Rightarrow> string list option" where
  "sent_header w key = (case rw_sent w of None \<Rightarrow> None | Some (_, h) \<Rightarrow> h key)"

definition new_calls :: "runtime \<Rightarrow> runtime \<Rightarrow> call list" where
  "new_calls rt rt' = drop (length (calls rt)) (calls rt')"

section \<open>Sample inputs\<close>

definition fresh_response :: ResponseWriter where
  "fresh_response = \<lparr>rw_header = Map.empty, rw_sent = None, rw_body = []\<rparr>"

definition download_response :: ResponseWriter where
  "download_response = setHeader ''Content-Disposition'' ''attachment'' fresh_response"

definition sample_request :: "(string \<times> string) list \<Rightarrow> Server option \<Rightarrow> Request" where
  "sample_request query srv =
     \<lparr>Method = ''GET'', RawQuery = [], Body = ([], EOF),
      Form = (\<lambda>key. case map_of query key of None \<Rightarrow> [] | Some v \<Rightarrow> [v]),
      ContextServer = srv\<rparr>"

definition post_request :: "string \<Rightarrow> ioerr \<Rightarrow> Request" where
  "post_request bs err =
     \<lparr>Method = ''POST'', RawQuery = [], Body = (bs, err), Form = (\<lambda>key. []),
      ContextServer = None\<rparr>"

definition sample_runtime :: runtime where
  "sample_runtime =
     \<lparr>Args = [''prog'', ''-v''],
      Lookup = [''heap'' \<mapsto> (\<lambda>cs debug. ''heap profile''),
                ''goroutine'' \<mapsto> (\<lambda>cs debug. ''goroutine profile'')],
      FuncForPC = [26 \<mapsto> ''main.main'', 43 \<mapsto> ''main.f''],
      cpu_profiling = False, cpu_data = ''samples'',
      tracing = False, trace_data = ''events'',
      calls = []\<rparr>"

text \<open>
  A sample platform: a parser that knows a few numerals, durations read exactly, a
  conversion that gives the least \<open>int64\<close> where the language leaves the result open, and
  a formatter that knows plain text, \<open>%%\<close> and a verb with no operand.
\<close>

definition sample_ParseFloat :: "string \<Rightarrow> float64 \<times> NumError option" where
  "sample_ParseFloat s =
     (if s = ''60'' then (Finite 60, None)
      else if s = ''2.5'' then (Finite (5 / 2), None)
      else if s = ''0'' then (Finite 0, None)
      else if s = ''-5'' then (Finite (- 5), None)
      else (Finite 0, Some ErrSyntax))"

fun sample_Sprintf :: "string \<Rightarrow> string" where
  "sample_Sprintf [] = []"
| "sample_Sprintf [c] = (if c = CHR ''%'' then ''%!(NOVERB)'' else [c])"
| "sample_Sprintf (c # d # s) =
     (if c \<noteq> CHR ''%'' then c # sample_Sprintf (d # s)
      else if d = CHR ''%'' then CHR ''%'' # sample_Sprintf s
      else ''%!'' @ [d] @ ''(MISSING)'' @ sample_Sprintf s)"

definition sample_platform :: platform where
  "sample_platform =
     \<lparr>ParseFloat_number = sample_ParseFloat,
      Seconds = (\<lambda>d. Finite (of_int (sint d) / 1000000000)),
      int64_overflow = (\<lambda>x. - 9223372036854775808),
      Sprintf = sample_Sprintf\<rparr>"

definition ten_second_server :: Server where
  "ten_second_server = \<lparr>WriteTimeout = 10 * Second\<rparr>"

section \<open>Evaluation\<close>

lemmas rw_defs = serveError_def Fprintln_def Write_def WriteHeader_def setHeader_def
  delHeader_def Header_Set_def Header_Del_def sent_status_def sent_header_def

lemmas strconv_defs = Atoi_def ParseInt_def ParseUint_def ParseUint_in_base_def maxUint64_def
  digit_value_def word_le_nat_alt word_less_nat_alt

lemmas sample_defs = fresh_response_def download_response_def sample_request_def
  post_request_def sample_runtime_def FormValue_def

lemma bit_length_0: "bit_length 0 = 0"
  by (subst bit_length.simps) simp

lemma bit_length_le: "n < 2 ^ k \<Longrightarrow> bit_length n \<le> k"
proof (induction k arbitrary: n)
  case 0
  then show ?case by (simp add: bit_length_0)
next
  case (Suc k)
  show ?case
  proof (cases "n = 0")
    case True
    then show ?thesis by (simp add: bit_length_0)
  next
    case False
    from Suc.prems have "n div 2 < 2 ^ k" by simp
    then have "bit_length (n div 2) \<le> k" by (rule Suc.IH)
    with False show ?thesis by (simp add: bit_length.simps [of n])
  qed
qed

lemma round_to_53_bits_small: "\<bar>n\<bar> < 2 ^ 53 \<Longrightarrow> round_to_53_bits n = n"
proof -
  assume "\<bar>n\<bar> < 2 ^ 53"
  then have "nat \<bar>n\<bar> < 2 ^ 53" by simp
  then have "bit_length (nat \<bar>n\<bar>) \<le> 53" by (rule bit_length_le)
  then show ?thesis by (simp add: round_to_53_bits_def Let_def)
qed

lemma float64_of_int64_small:
  "\<bar>sint x\<bar> < 2 ^ 53 \<Longrightarrow> float64_of_int64 x = Finite (of_int (sint x))"
  by (simp add: float64_of_int64_def round_to_53_bits_small)

lemma flt_not_fge: "flt a b \<Longrightarrow> \<not> fge a b"
  unfolding fge_def by (cases a; cases b) auto

lemma sint_times_Second:
  assumes "- 9223372036 \<le> sint (v :: int64)" and "sint v \<le> 9223372036"
  shows "sint (v * Second) = sint v * 1000000000"
proof -
  have "sint (v * Second) = signed_take_bit 63 (sint v * sint Second)"
    by (simp add: sint_word_ariths)
  also have "sint Second = 1000000000" by (simp add: Second_def)
  also have "signed_take_bit 63 (sint v * 1000000000) = sint v * 1000000000"
    using assms by (intro signed_take_bit_int_eq_self) auto
  finally show ?thesis .
qed

section \<open>Named profiles\<close>

text \<open>
  C4. A request for a profile name that the registry does not know, on a response that
  is not yet committed, is answered with status 404 and the plain-text body
  \<open>Unknown profile\<close>; the headers sent carry \<open>X-Content-Type-Options: nosniff\<close> and the
  marker \<open>X-Go-Pprof: 1\<close>, and no \<open>Content-Disposition\<close>, whatever the response held under
  that key before. The runtime is left as it was.
\<close>

theorem unknown_profile_not_found:
  assumes "Lookup rt name = None" and "rw_sent w = None"
  shows "snd (ServeHTTP name w r rt) = rt \<and>
    sent_status (fst (ServeHTTP name w r rt)) = Some 404 \<and>
    rw_body (fst (ServeHTTP name w r rt)) = rw_body w @ ''Unknown profile'' @ [CHR 0x0A] \<and>
    sent_header (fst (ServeHTTP name w r rt)) ''Content-Type'' =
      Some [''text/plain; charset=utf-8''] \<and>
    sent_header (fst (ServeHTTP name w r rt)) ''X-Content-Type-Options'' = Some [''nosniff''] \<and>
    sent_header (fst (ServeHTTP name w r rt)) ''X-Go-Pprof'' = Some [''1''] \<and>
    sent_header (fst (ServeHTTP name w r rt)) ''Content-Disposition'' = None"
proof -
  from assms(1) have served:
    "ServeHTTP name w r rt =
       (serveError StatusNotFound ''Unknown profile''
          (setHeader ''X-Content-Type-Options'' ''nosniff'' w), rt)"
    by (simp add: ServeHTTP_def Let_def)
  show ?thesis
    unfolding served using assms(2) by (simp add: rw_defs StatusNotFound_def)
qed

theorem unknown_profile_not_found_witness:
  "Lookup sample_runtime ''block'' = None \<and> rw_sent download_response = None \<and>
   rw_header download_response ''Content-Disposition'' = Some [''attachment''] \<and>
   sent_status (fst (ServeHTTP ''block'' download_response (sample_request [] None)
     sample_runtime)) = Some 404 \<and>
   sent_header (fst (ServeHTTP ''block'' download_response (sample_request [] None)
     sample_runtime)) ''Content-Disposition'' = None"
  using unknown_profile_not_found
    [of sample_runtime "''block''" download_response "sample_request [] None"]
  by (simp add: sample_runtime_def download_response_def fresh_response_def setHeader_def
      Header_Set_def)

text \<open>
  C5. A request for a registered profile, on a response that is not yet committed, is
  answered with status 200. When the \<open>debug\<close> value of the form parses to 0 (as it does
  when it is absent), the headers sent say \<open>application/octet-stream\<close> and
  \<open>Content-Disposition: attachment; filename="name"\<close>. When it parses to another
  number, they say \<open>text/plain\<close>, and the handler adds no attachment header: under
  \<open>Content-Disposition\<close> the response sends what it held before the handler ran, which is
  nothing for the response a server hands to a handler.
\<close>

theorem registered_profile_download_or_text:
  assumes "Lookup rt name = Some p" and "rw_sent w = None"
  shows "let debug = fst (Atoi (FormValue r ''debug'')); w' = fst (ServeHTTP name w r rt) in
    sent_status w' = Some 200 \<and>
    (debug = 0 \<longrightarrow>
       sent_header w' ''Content-Type'' = Some [''application/octet-stream''] \<and>
       sent_header w' ''Content-Disposition'' =
         Some [''attachment; filename='' @ [CHR 0x22] @ name @ [CHR 0x22]]) \<and>
    (debug \<noteq> 0 \<longrightarrow>
       sent_header w' ''Content-Type'' = Some [''text/plain; charset=utf-8''] \<and>
       sent_header w' ''Content-Disposition'' = rw_header w ''Content-Disposition'')"
proof (cases "fst (Atoi (FormValue r ''debug'')) = 0")
  case True
  with assms show ?thesis
    by (simp add: ServeHTTP_def WriteTo_def rw_defs Let_def)
next
  case False
  with assms show ?thesis
    by (simp add: ServeHTTP_def WriteTo_def rw_defs Let_def)
qed

lemma sample_debug_values:
  "fst (Atoi (FormValue (sample_request [(''debug'', ''1'')] None) ''debug'')) = 1"
  "fst (Atoi (FormValue (sample_request [] None) ''debug'')) = 0"
  by (simp_all add: sample_request_def FormValue_def strconv_defs)

theorem registered_profile_download_or_text_witness:
  "Lookup sample_runtime ''heap'' = Some (\<lambda>cs debug. ''heap profile'') \<and>
   rw_sent fresh_response = None \<and>
   fst (Atoi (FormValue (sample_request [(''debug'', ''1'')] None) ''debug'')) = 1 \<and>
   sent_status (fst (ServeHTTP ''heap'' fresh_response
     (sample_request [(''debug'', ''1'')] None) sample_runtime)) = Some 200 \<and>
   sent_header (fst (ServeHTTP ''heap'' fresh_response
     (sample_request [(''debug'', ''1'')] None) sample_runtime)) ''Content-Type'' =
     Some [''text/plain; charset=utf-8''] \<and>
   sent_header (fst (ServeHTTP ''heap'' fresh_response
     (sample_request [(''debug'', ''1'')] None) sample_runtime)) ''Content-Disposition'' = None \<and>
   fst (Atoi (FormValue (sample_request [] None) ''debug'')) = 0 \<and>
   sent_header (fst (ServeHTTP ''heap'' fresh_response
     (sample_request [] None) sample_runtime)) ''Content-Type'' =
     Some [''application/octet-stream''] \<and>
   sent_header (fst (ServeHTTP ''heap'' fresh_response
     (sample_request [] None) sample_runtime)) ''Content-Disposition'' =
     Some [''attachment; filename='' @ [CHR 0x22] @ ''heap'' @ [CHR 0x22]]"
  using
    registered_profile_download_or_text [of sample_runtime "''heap''"
      "\<lambda>cs debug. ''heap profile''" fresh_response "sample_request [(''debug'', ''1'')] None"]
    registered_profile_download_or_text [of sample_runtime "''heap''"
      "\<lambda>cs debug. ''heap profile''" fresh_response "sample_request [] None"]
  by (simp add: sample_debug_values Let_def) (simp add: sample_runtime_def fresh_response_def)

text \<open>
  C6. With a \<open>gc\<close> value above 0, the calls that the handler makes into the runtime are:
  none when the name is not registered; for the registered name \<open>heap\<close>, one collection
  and then the serialization of the profile; for any other registered name, the
  serialization alone. So a collection runs exactly when the name is \<open>heap\<close> and the
  profile is found, it runs before the profile is written, and the bytes written are
  those of a snapshot taken after it.
\<close>

theorem gc_only_for_heap:
  assumes "0 < sint (fst (Atoi (FormValue r ''gc'')))"
  shows "new_calls rt (snd (ServeHTTP name w r rt)) =
      (case Lookup rt name of
         None \<Rightarrow> []
       | Some p \<Rightarrow>
           (if name = ''heap'' then [CallGC] else []) @
           [CallWriteTo name (fst (Atoi (FormValue r ''debug'')))]) \<and>
    (CallGC \<in> set (new_calls rt (snd (ServeHTTP name w r rt))) \<longleftrightarrow>
       name = ''heap'' \<and> Lookup rt name \<noteq> None) \<and>
    (\<forall>p. Lookup rt name = Some p \<longrightarrow>
       rw_body (fst (ServeHTTP name w r rt)) =
         rw_body w @ p (calls rt @ (if name = ''heap'' then [CallGC] else []))
                       (fst (Atoi (FormValue r ''debug''))))"
proof (cases "Lookup rt name")
  case None
  then show ?thesis
    by (simp add: ServeHTTP_def new_calls_def Let_def)
next
  case (Some p)
  with assms show ?thesis
    by (simp add: ServeHTTP_def WriteTo_def GC_def called_def new_calls_def rw_defs Let_def
        split: option.split)
qed

lemma sample_gc_value:
  "fst (Atoi (FormValue (sample_request [(''gc'', ''1'')] None) ''gc'')) = 1"
  "fst (Atoi (FormValue (sample_request [(''gc'', ''1'')] None) ''debug'')) = 0"
  by (simp_all add: sample_request_def FormValue_def strconv_defs)

theorem gc_only_for_heap_witness:
  "0 < sint (fst (Atoi (FormValue (sample_request [(''gc'', ''1'')] None) ''gc''))) \<and>
   new_calls sample_runtime (snd (ServeHTTP ''heap'' fresh_response
     (sample_request [(''gc'', ''1'')] None) sample_runtime)) = [CallGC, CallWriteTo ''heap'' 0] \<and>
   new_calls sample_runtime (snd (ServeHTTP ''goroutine'' fresh_response
     (sample_request [(''gc'', ''1'')] None) sample_runtime)) = [CallWriteTo ''goroutine'' 0] \<and>
   new_calls sample_runtime (snd (ServeHTTP ''block'' fresh_response
     (sample_request [(''gc'', ''1'')] None) sample_runtime)) = [] \<and>
   Lookup sample_runtime ''heap'' = Some (\<lambda>cs debug. ''heap profile'') \<and>
   rw_body (fst (ServeHTTP ''heap'' fresh_response
     (sample_request [(''gc'', ''1'')] None) sample_runtime)) = ''heap profile''"
proof -
  let ?r = "sample_request [(''gc'', ''1'')] None"
  have gc: "0 < sint (fst (Atoi (FormValue ?r ''gc'')))"
    by (simp add: sample_gc_value)
  have found: "Lookup sample_runtime ''heap'' = Some (\<lambda>cs debug. ''heap profile'')"
    "Lookup sample_runtime ''goroutine'' = Some (\<lambda>cs debug. ''goroutine profile'')"
    "Lookup sample_runtime ''block'' = None"
    by (simp_all add: sample_runtime_def)
  from gc_only_for_heap [OF gc, of sample_runtime "''heap''" fresh_response]
    gc_only_for_heap [OF gc, of sample_runtime "''goroutine''" fresh_response]
    gc_only_for_heap [OF gc, of sample_runtime "''block''" fresh_response]
  show ?thesis
    by (simp add: gc found sample_gc_value fresh_response_def)
qed

section \<open>Timed captures\<close>

lemma bad_request_response:
  assumes "rw_sent w = None"
  shows "sent_status (serveError StatusBadRequest txt (setHeader ''X-Content-Type-Options'' ''nosniff'' w)) = Some 400 \<and>
    rw_body (serveError StatusBadRequest txt (setHeader ''X-Content-Type-Options'' ''nosniff'' w)) = rw_body w @ txt @ [CHR 0x0A] \<and>
    sent_header (serveError StatusBadRequest txt (setHeader ''X-Content-Type-Options'' ''nosniff'' w)) ''Content-Type'' = Some [''text/plain; charset=utf-8''] \<and>
    sent_header (serveError StatusBadRequest txt (setHeader ''X-Content-Type-Options'' ''nosniff'' w)) ''Content-Disposition'' = None"
  using assms by (simp add: rw_defs StatusBadRequest_def)

lemma Profile_exceeds:
  assumes "durationExceedsWriteTimeout P r (float64_of_int64 (Profile_seconds r))"
  shows "Profile P w r rt =
    (serveError StatusBadRequest ''profile duration exceeds server's WriteTimeout''
       (setHeader ''X-Content-Type-Options'' ''nosniff'' w), rt)"
  using assms by (simp add: Profile_def Let_def)

lemma Trace_exceeds:
  assumes "durationExceedsWriteTimeout P r (Trace_seconds P r)"
  shows "Trace P w r rt =
    (serveError StatusBadRequest ''profile duration exceeds server's WriteTimeout''
       (setHeader ''X-Content-Type-Options'' ''nosniff'' w), rt)"
  using assms by (simp add: Trace_def Let_def)

lemma Profile_runs:
  assumes "\<not> durationExceedsWriteTimeout P r (float64_of_int64 (Profile_seconds r))"
    and "fst (StartCPUProfile rt) = None"
  shows "new_calls rt (snd (Profile P w r rt)) =
    [CallStartCPUProfile, CallSleep (Profile_seconds r * Second), CallStopCPUProfile]"
  using assms
  by (auto simp: Profile_def StartCPUProfile_def StopCPUProfile_def sleep_def called_def
      new_calls_def Let_def split: if_splits)

lemma Trace_runs:
  assumes "\<not> durationExceedsWriteTimeout P r (Trace_seconds P r)"
    and "fst (trace_Start rt) = None"
  shows "new_calls rt (snd (Trace P w r rt)) =
    [CallTraceStart, CallSleep (Trace_duration P (Trace_seconds P r)), CallTraceStop]"
  using assms
  by (auto simp: Trace_def trace_Start_def trace_Stop_def sleep_def called_def
      new_calls_def Let_def split: if_splits)

text \<open>
  C1. Let the request be served by a server whose write timeout is not zero, on a
  response that is not yet committed. If the duration of \<open>Profile\<close> (the seconds of the
  request as a \<open>float64\<close>) is greater than or equal to the seconds of the write timeout,
  \<open>Profile\<close> answers with status 400 and the plain-text line
  \<open>profile duration exceeds server's WriteTimeout\<close>, and the runtime is exactly what it
  was: no call into it was made, so the sampler was not started and its active flag is
  unchanged. The same holds of \<open>Trace\<close>, its duration and the tracer. The comparison is
  the one the handlers make, on \<open>float64\<close> values.
\<close>

theorem duration_over_write_timeout_rejected:
  assumes "ContextServer r = Some srv" and "WriteTimeout srv \<noteq> 0" and "rw_sent w = None"
  shows "(fge (float64_of_int64 (Profile_seconds r)) (Seconds P (WriteTimeout srv)) \<longrightarrow>
      snd (Profile P w r rt) = rt \<and>
      sent_status (fst (Profile P w r rt)) = Some 400 \<and>
      rw_body (fst (Profile P w r rt)) =
        rw_body w @ ''profile duration exceeds server's WriteTimeout'' @ [CHR 0x0A] \<and>
      sent_header (fst (Profile P w r rt)) ''Content-Type'' = Some [''text/plain; charset=utf-8'']) \<and>
    (fge (Trace_seconds P r) (Seconds P (WriteTimeout srv)) \<longrightarrow>
      snd (Trace P w r rt) = rt \<and>
      sent_status (fst (Trace P w r rt)) = Some 400 \<and>
      rw_body (fst (Trace P w r rt)) =
        rw_body w @ ''profile duration exceeds server's WriteTimeout'' @ [CHR 0x0A] \<and>
      sent_header (fst (Trace P w r rt)) ''Content-Type'' = Some [''text/plain; charset=utf-8''])"
proof (intro conjI impI)
  assume "fge (float64_of_int64 (Profile_seconds r)) (Seconds P (WriteTimeout srv))"
  with assms have "durationExceedsWriteTimeout P r (float64_of_int64 (Profile_seconds r))"
    by (simp add: durationExceedsWriteTimeout_def)
  note eq = Profile_exceeds [OF this, of w rt]
  show "snd (Profile P w r rt) = rt" by (simp add: eq)
  show "sent_status (fst (Profile P w r rt)) = Some 400"
    using bad_request_response [OF assms(3)] by (simp add: eq)
  show "rw_body (fst (Profile P w r rt)) =
        rw_body w @ ''profile duration exceeds server's WriteTimeout'' @ [CHR 0x0A]"
    using bad_request_response [OF assms(3)] by (simp add: eq)
  show "sent_header (fst (Profile P w r rt)) ''Content-Type'' = Some [''text/plain; charset=utf-8'']"
    using bad_request_response [OF assms(3)] by (simp add: eq)
next
  assume "fge (Trace_seconds P r) (Seconds P (WriteTimeout srv))"
  with assms have "durationExceedsWriteTimeout P r (Trace_seconds P r)"
    by (simp add: durationExceedsWriteTimeout_def)
  note eq = Trace_exceeds [OF this, of w rt]
  show "snd (Trace P w r rt) = rt" by (simp add: eq)
  show "sent_status (fst (Trace P w r rt)) = Some 400"
    using bad_request_response [OF assms(3)] by (simp add: eq)
  show "rw_body (fst (Trace P w r rt)) =
        rw_body w @ ''profile duration exceeds server's WriteTimeout'' @ [CHR 0x0A]"
    using bad_request_response [OF assms(3)] by (simp add: eq)
  show "sent_header (fst (Trace P w r rt)) ''Content-Type'' = Some [''text/plain; charset=utf-8'']"
    using bad_request_response [OF assms(3)] by (simp add: eq)
qed

lemma sample_minute:
  "ContextServer (sample_request [(''seconds'', ''60'')] (Some ten_second_server)) = Some ten_second_server"
  "WriteTimeout ten_second_server \<noteq> 0"
  "Profile_seconds (sample_request [(''seconds'', ''60'')] (Some ten_second_server)) = 60"
  "Trace_seconds sample_platform (sample_request [(''seconds'', ''60'')] (Some ten_second_server)) = Finite 60"
  "Seconds sample_platform (WriteTimeout ten_second_server) = Finite 10"
  "float64_of_int64 60 = Finite 60"
  by (simp_all add: sample_request_def ten_second_server_def Second_def Profile_seconds_def
      Trace_seconds_def FormValue_def strconv_defs sample_platform_def sample_ParseFloat_def
      ParseFloat_def special_def float64_of_int64_small)

theorem duration_over_write_timeout_rejected_witness:
  "ContextServer (sample_request [(''seconds'', ''60'')] (Some ten_second_server)) = Some ten_second_server \<and>
   WriteTimeout ten_second_server \<noteq> 0 \<and> rw_sent fresh_response = None \<and>
   fge (float64_of_int64 (Profile_seconds (sample_request [(''seconds'', ''60'')] (Some ten_second_server))))
     (Seconds sample_platform (WriteTimeout ten_second_server)) \<and>
   fge (Trace_seconds sample_platform (sample_request [(''seconds'', ''60'')] (Some ten_second_server)))
     (Seconds sample_platform (WriteTimeout ten_second_server)) \<and>
   snd (Profile sample_platform fresh_response
     (sample_request [(''seconds'', ''60'')] (Some ten_second_server)) sample_runtime) = sample_runtime \<and>
   sent_status (fst (Profile sample_platform fresh_response
     (sample_request [(''seconds'', ''60'')] (Some ten_second_server)) sample_runtime)) = Some 400 \<and>
   snd (Trace sample_platform fresh_response
     (sample_request [(''seconds'', ''60'')] (Some ten_second_server)) sample_runtime) = sample_runtime \<and>
   sent_status (fst (Trace sample_platform fresh_response
     (sample_request [(''seconds'', ''60'')] (Some ten_second_server)) sample_runtime)) = Some 400"
proof -
  have fresh: "rw_sent fresh_response = None" by (simp add: fresh_response_def)
  from duration_over_write_timeout_rejected [OF sample_minute(1) sample_minute(2) fresh, of sample_platform sample_runtime]
  show ?thesis
    by (simp add: sample_minute fresh fge_def)
qed

lemma sample_no_server: "\<not> durationExceedsWriteTimeout P (sample_request q None) x"
  by (simp add: durationExceedsWriteTimeout_def sample_request_def)

lemma sample_idle:
  "fst (StartCPUProfile sample_runtime) = None" "fst (trace_Start sample_runtime) = None"
  by (simp_all add: sample_runtime_def StartCPUProfile_def trace_Start_def Let_def)

lemma sample_seconds:
  "Form (sample_request [] srv) ''seconds'' = []"
  "fst (ParseInt (FormValue (sample_request [(''seconds'', ''0'')] srv) ''seconds'') 10 64) = 0"
  "fst (ParseInt (FormValue (sample_request [(''seconds'', ''5'')] srv) ''seconds'') 10 64) = 5"
  "fst (ParseInt (FormValue (sample_request [(''seconds'', ''-9223372037'')] srv) ''seconds'') 10 64)
     = - 9223372037"
  "fst (ParseInt (FormValue (sample_request [(''seconds'', ''9223372037'')] srv) ''seconds'') 10 64)
     = 9223372037"
  "fst (ParseInt (FormValue (sample_request [(''seconds'', ''-5'')] srv) ''seconds'') 10 64) = - 5"
  by (simp_all add: sample_request_def FormValue_def strconv_defs)

text \<open>
  C8, as amended. The seconds of \<open>Profile\<close> are 30 when the form has no \<open>seconds\<close> value
  and when the value parses to 0 (as a value that is not a number does), and are the
  parsed integer otherwise. That value is the one held against the write timeout, and
  when the check passes and the start of the sampler returns no error, the handler
  starts the sampler, sleeps for the value times \<open>time.Second\<close> in wrapping \<open>int64\<close>
  arithmetic and stops the sampler. For a value between -9223372036 and 9223372036 the
  product is exact: the sleep is that many seconds, 30 seconds by default. (Outside
  that range the product wraps around: see the counterexample.)
\<close>

theorem profile_seconds_default_thirty:
  "(Form r ''seconds'' = [] \<longrightarrow> Profile_seconds r = 30) \<and>
   (fst (ParseInt (FormValue r ''seconds'') 10 64) = 0 \<longrightarrow> Profile_seconds r = 30) \<and>
   (fst (ParseInt (FormValue r ''seconds'') 10 64) \<noteq> 0 \<longrightarrow>
      Profile_seconds r = fst (ParseInt (FormValue r ''seconds'') 10 64)) \<and>
   (\<not> durationExceedsWriteTimeout P r (float64_of_int64 (Profile_seconds r)) \<and>
    fst (StartCPUProfile rt) = None \<longrightarrow>
      new_calls rt (snd (Profile P w r rt)) =
        [CallStartCPUProfile, CallSleep (Profile_seconds r * Second), CallStopCPUProfile]) \<and>
   (- 9223372036 \<le> sint (Profile_seconds r) \<and> sint (Profile_seconds r) \<le> 9223372036 \<longrightarrow>
      sint (Profile_seconds r * Second) = sint (Profile_seconds r) * 1000000000)"
proof (intro conjI impI)
  assume "Form r ''seconds'' = []"
  then have "FormValue r ''seconds'' = []" by (simp add: FormValue_def)
  then show "Profile_seconds r = 30" by (simp add: Profile_seconds_def ParseInt_def)
next
  assume "fst (ParseInt (FormValue r ''seconds'') 10 64) = 0"
  then show "Profile_seconds r = 30" by (simp add: Profile_seconds_def)
next
  assume "fst (ParseInt (FormValue r ''seconds'') 10 64) \<noteq> 0"
  then show "Profile_seconds r = fst (ParseInt (FormValue r ''seconds'') 10 64)"
    by (simp add: Profile_seconds_def)
next
  assume "\<not> durationExceedsWriteTimeout P r (float64_of_int64 (Profile_seconds r)) \<and>
    fst (StartCPUProfile rt) = None"
  then show "new_calls rt (snd (Profile P w r rt)) =
        [CallStartCPUProfile, CallSleep (Profile_seconds r * Second), CallStopCPUProfile]"
    by (simp add: Profile_runs)
next
  assume "- 9223372036 \<le> sint (Profile_seconds r) \<and> sint (Profile_seconds r) \<le> 9223372036"
  then show "sint (Profile_seconds r * Second) = sint (Profile_seconds r) * 1000000000"
    by (simp add: sint_times_Second)
qed

text \<open>
  C8 as stated fails: with \<open>seconds=9223372037\<close> and no write timeout the seconds are
  9223372037, the sampler starts, and the handler sleeps for a duration that has
  wrapped around to -9223372036709551616 nanoseconds, so the capture ends at once.
\<close>

theorem profile_seconds_default_thirty_counterexample:
  "fst (ParseInt (FormValue (sample_request [(''seconds'', ''9223372037'')] None) ''seconds'')
     10 64) = 9223372037 \<and>
   Profile_seconds (sample_request [(''seconds'', ''9223372037'')] None) = 9223372037 \<and>
   new_calls sample_runtime (snd (Profile sample_platform fresh_response
     (sample_request [(''seconds'', ''9223372037'')] None) sample_runtime)) =
     [CallStartCPUProfile, CallSleep (9223372037 * Second), CallStopCPUProfile] \<and>
   sint (9223372037 * Second :: Duration) = - 9223372036709551616 \<and>
   sint (9223372037 * Second :: Duration) \<noteq> 9223372037 * 1000000000"
proof -
  let ?r = "sample_request [(''seconds'', ''9223372037'')] None"
  have sec: "Profile_seconds ?r = 9223372037"
    by (simp add: Profile_seconds_def sample_seconds)
  have "new_calls sample_runtime (snd (Profile sample_platform fresh_response ?r sample_runtime)) =
     [CallStartCPUProfile, CallSleep (Profile_seconds ?r * Second), CallStopCPUProfile]"
    by (rule Profile_runs) (simp_all add: sample_no_server sample_idle)
  then show ?thesis
    by (simp add: sec sample_seconds Second_def)
qed

theorem profile_seconds_default_thirty_witness:
  "Form (sample_request [] None) ''seconds'' = [] \<and>
   Profile_seconds (sample_request [] None) = 30 \<and>
   fst (ParseInt (FormValue (sample_request [(''seconds'', ''0'')] None) ''seconds'') 10 64) = 0 \<and>
   Profile_seconds (sample_request [(''seconds'', ''0'')] None) = 30 \<and>
   fst (ParseInt (FormValue (sample_request [(''seconds'', ''5'')] None) ''seconds'') 10 64) = 5 \<and>
   Profile_seconds (sample_request [(''seconds'', ''5'')] None) = 5 \<and>
   \<not> durationExceedsWriteTimeout sample_platform (sample_request [] None) (float64_of_int64 30) \<and>
   fst (StartCPUProfile sample_runtime) = None \<and>
   new_calls sample_runtime (snd (Profile sample_platform fresh_response
     (sample_request [] None) sample_runtime)) =
     [CallStartCPUProfile, CallSleep 30000000000, CallStopCPUProfile] \<and>
   sint (30 * Second :: Duration) = 30 * 1000000000"
proof -
  from profile_seconds_default_thirty
      [of "sample_request [] None" sample_platform sample_runtime fresh_response]
    profile_seconds_default_thirty
      [of "sample_request [(''seconds'', ''0'')] None" sample_platform sample_runtime
        fresh_response]
    profile_seconds_default_thirty
      [of "sample_request [(''seconds'', ''5'')] None" sample_platform sample_runtime
        fresh_response]
  show ?thesis
    by (auto simp: sample_seconds sample_no_server sample_idle Second_def)
qed

text \<open>
  C10, as amended. When the \<open>seconds\<close> value parses to a negative integer, \<open>Profile\<close>
  keeps it: the default of 30 is not put in its place. It passes the check against the
  write timeout whenever, as a \<open>float64\<close>, it is below the seconds of the timeout. When
  the check passes and the sampler starts, the handler sleeps for the value times
  \<open>time.Second\<close> in wrapping \<open>int64\<close> arithmetic. For a value from -9223372036 up, that
  product is exact and negative, so the sleep returns at once. (Below that the product
  wraps around and need not be negative: see the counterexample.)
\<close>

theorem negative_profile_seconds:
  assumes "sint (fst (ParseInt (FormValue r ''seconds'') 10 64)) < 0"
  shows "let v = fst (ParseInt (FormValue r ''seconds'') 10 64) in
    Profile_seconds r = v \<and>
    (\<forall>srv. ContextServer r = Some srv \<and> flt (float64_of_int64 v) (Seconds P (WriteTimeout srv)) \<longrightarrow>
       \<not> durationExceedsWriteTimeout P r (float64_of_int64 (Profile_seconds r))) \<and>
    (\<not> durationExceedsWriteTimeout P r (float64_of_int64 (Profile_seconds r)) \<and>
     fst (StartCPUProfile rt) = None \<longrightarrow>
       new_calls rt (snd (Profile P w r rt)) =
         [CallStartCPUProfile, CallSleep (v * Second), CallStopCPUProfile]) \<and>
    (- 9223372036 \<le> sint v \<longrightarrow>
       sint (v * Second) = sint v * 1000000000 \<and> sint (v * Second) < 0)"
proof -
  define v where "v = fst (ParseInt (FormValue r ''seconds'') 10 64)"
  from assms have neg: "sint v < 0" by (simp add: v_def)
  then have "v \<noteq> 0" by auto
  then have kept: "Profile_seconds r = v" by (simp add: Profile_seconds_def v_def)
  have passes: "\<not> durationExceedsWriteTimeout P r (float64_of_int64 (Profile_seconds r))"
    if "ContextServer r = Some srv" and "flt (float64_of_int64 v) (Seconds P (WriteTimeout srv))" for srv
    using that flt_not_fge [of "float64_of_int64 v" "Seconds P (WriteTimeout srv)"]
    by (simp add: durationExceedsWriteTimeout_def kept)
  have runs: "new_calls rt (snd (Profile P w r rt)) =
         [CallStartCPUProfile, CallSleep (v * Second), CallStopCPUProfile]"
    if "\<not> durationExceedsWriteTimeout P r (float64_of_int64 (Profile_seconds r))"
      and "fst (StartCPUProfile rt) = None"
    using Profile_runs [OF that, of w] by (simp add: kept)
  have short: "sint (v * Second) = sint v * 1000000000 \<and> sint (v * Second) < 0"
    if "- 9223372036 \<le> sint v"
  proof -
    from that neg have "sint (v * Second) = sint v * 1000000000"
      by (intro sint_times_Second) auto
    with neg show ?thesis by simp
  qed
  from kept passes runs short show ?thesis
    unfolding Let_def v_def [symmetric] by blast
qed

text \<open>
  C10 as stated fails: \<open>seconds=-9223372037\<close> parses to a negative integer, the sampler
  starts, and the handler sleeps for 9223372036709551616 nanoseconds, a positive
  duration of some 292 years.
\<close>

theorem negative_profile_seconds_counterexample:
  "sint (fst (ParseInt (FormValue (sample_request [(''seconds'', ''-9223372037'')] None) ''seconds'')
     10 64)) < 0 \<and>
   new_calls sample_runtime (snd (Profile sample_platform fresh_response
     (sample_request [(''seconds'', ''-9223372037'')] None) sample_runtime)) =
     [CallStartCPUProfile, CallSleep 9223372036709551616, CallStopCPUProfile] \<and>
   0 < sint (9223372036709551616 :: Duration)"
proof -
  let ?r = "sample_request [(''seconds'', ''-9223372037'')] None"
  have sec: "Profile_seconds ?r = - 9223372037"
    by (simp add: Profile_seconds_def sample_seconds)
  have "new_calls sample_runtime (snd (Profile sample_platform fresh_response ?r sample_runtime)) =
     [CallStartCPUProfile, CallSleep (Profile_seconds ?r * Second), CallStopCPUProfile]"
    by (rule Profile_runs) (simp_all add: sample_no_server sample_idle)
  then show ?thesis
    by (simp add: sec sample_seconds Second_def)
qed

theorem negative_profile_seconds_witness:
  "sint (fst (ParseInt (FormValue (sample_request [(''seconds'', ''-5'')] (Some ten_second_server))
     ''seconds'') 10 64)) < 0 \<and>
   Profile_seconds (sample_request [(''seconds'', ''-5'')] (Some ten_second_server)) = - 5 \<and>
   ContextServer (sample_request [(''seconds'', ''-5'')] (Some ten_second_server)) =
     Some ten_second_server \<and>
   flt (float64_of_int64 (- 5)) (Seconds sample_platform (WriteTimeout ten_second_server)) \<and>
   \<not> durationExceedsWriteTimeout sample_platform
     (sample_request [(''seconds'', ''-5'')] (Some ten_second_server)) (float64_of_int64 (- 5)) \<and>
   fst (StartCPUProfile sample_runtime) = None \<and>
   new_calls sample_runtime (snd (Profile sample_platform fresh_response
     (sample_request [(''seconds'', ''-5'')] (Some ten_second_server)) sample_runtime)) =
     [CallStartCPUProfile, CallSleep (- 5000000000), CallStopCPUProfile] \<and>
   sint (- 5 * Second :: Duration) = - 5000000000"
proof -
  let ?r = "sample_request [(''seconds'', ''-5'')] (Some ten_second_server)"
  have neg: "sint (fst (ParseInt (FormValue ?r ''seconds'') 10 64)) < 0"
    by (simp add: sample_seconds)
  have srv: "ContextServer ?r = Some ten_second_server"
    by (simp add: sample_request_def)
  have below: "flt (float64_of_int64 (- 5)) (Seconds sample_platform (WriteTimeout ten_second_server))"
    by (simp add: float64_of_int64_small sample_minute)
  from negative_profile_seconds [OF neg, of sample_platform sample_runtime fresh_response]
  show ?thesis
    by (auto simp: sample_seconds srv below sample_idle Let_def Second_def)
qed

lemma bit_length_gt: "n < 2 ^ bit_length n"
proof (induction n rule: bit_length.induct)
  case (1 n)
  show ?case
  proof (cases "n = 0")
    case True
    then show ?thesis by (simp add: bit_length_0)
  next
    case False
    with 1 have "n div 2 < 2 ^ bit_length (n div 2)" by simp
    then have "n < 2 * 2 ^ bit_length (n div 2)" by linarith
    with False show ?thesis by (simp add: bit_length.simps [of n])
  qed
qed

lemma bit_length_1: "bit_length (Suc 0) = Suc 0"
  by (subst bit_length.simps) (simp add: bit_length_0)

lemma bit_length_ge: "0 < n \<Longrightarrow> 2 ^ (bit_length n - 1) \<le> n"
proof (induction n rule: bit_length.induct)
  case (1 n)
  show ?case
  proof (cases "n div 2 = 0")
    case True
    with "1.prems" have "n = 1" by (auto simp: div_eq_0_iff)
    then show ?thesis by (simp add: bit_length_1)
  next
    case False
    with 1 have ih: "2 ^ (bit_length (n div 2) - 1) \<le> n div 2" by simp
    from False have pos: "0 < bit_length (n div 2)"
      by (simp add: bit_length.simps [of "n div 2"])
    from "1.prems" have "bit_length n = Suc (bit_length (n div 2))"
      by (simp add: bit_length.simps [of n])
    with pos have "(2::nat) ^ (bit_length n - 1) = 2 * 2 ^ (bit_length (n div 2) - 1)"
      by (cases "bit_length (n div 2)") simp_all
    with ih show ?thesis by linarith
  qed
qed

lemma round_half_even_error: "\<bar>of_int (round_half_even t) - t\<bar> \<le> 1 / 2"
proof -
  define f where "f = \<lfloor>t\<rfloor>"
  define d where "d = t - of_int f"
  have d: "0 \<le> d" "d < 1" unfolding d_def f_def by linarith+
  have t: "t = of_int f + d" by (simp add: d_def)
  have rhe: "round_half_even t =
    (if d < 1 / 2 then f else if 1 / 2 < d then f + 1 else if even f then f else f + 1)"
    unfolding round_half_even_def Let_def f_def d_def ..
  consider "d < 1 / 2" | "1 / 2 < d" | "d = 1 / 2" by linarith
  then show ?thesis
  proof cases
    case 1
    with rhe have "round_half_even t = f" by simp
    then have "of_int (round_half_even t) - t = - d" by (simp add: d_def)
    with d 1 show ?thesis by simp
  next
    case 2
    with rhe have "round_half_even t = f + 1" by simp
    then have "of_int (round_half_even t) - t = 1 - d" by (simp add: d_def)
    with d 2 show ?thesis by simp
  next
    case 3
    with rhe have "round_half_even t = f \<or> round_half_even t = f + 1" by simp
    then have "of_int (round_half_even t) - t = - d \<or> of_int (round_half_even t) - t = 1 - d"
      by (auto simp: d_def)
    with 3 show ?thesis by auto
  qed
qed

lemma round_half_even_int: "round_half_even (of_int k) = k"
  by (simp add: round_half_even_def Let_def)


lemma ilog2_ge_one:
  assumes "1 \<le> x"
  shows "ilog2 x = int (bit_length (nat \<lfloor>x\<rfloor>) - 1)" and "2 ^ (bit_length (nat \<lfloor>x\<rfloor>) - 1) \<le> x"
proof -
  from assms have fl: "1 \<le> \<lfloor>x\<rfloor>" by simp
  then have pos: "0 < nat \<lfloor>x\<rfloor>" by simp
  then have "0 < bit_length (nat \<lfloor>x\<rfloor>)"
    by (simp add: bit_length.simps [of "nat \<lfloor>x\<rfloor>"])
  with assms show "ilog2 x = int (bit_length (nat \<lfloor>x\<rfloor>) - 1)"
    by (simp add: ilog2_def)
  from bit_length_ge [OF pos] have "int (2 ^ (bit_length (nat \<lfloor>x\<rfloor>) - 1)) \<le> \<lfloor>x\<rfloor>"
    using fl by linarith
  then have "(of_int (int (2 ^ (bit_length (nat \<lfloor>x\<rfloor>) - 1))) :: rat) \<le> of_int \<lfloor>x\<rfloor>"
    by (simp only: of_int_le_iff)
  also have "\<dots> \<le> x" by simp
  finally show "2 ^ (bit_length (nat \<lfloor>x\<rfloor>) - 1) \<le> x" by simp
qed

lemma round_float64_normal:
  assumes "1 \<le> x" and "x + x / 2 ^ 53 < 2 powi 1024"
  shows "\<exists>y. round_float64 x = Finite y \<and> \<bar>y - x\<bar> \<le> x / 2 ^ 53"
proof -
  define k where "k = bit_length (nat \<lfloor>x\<rfloor>) - 1"
  define ulp :: rat where "ulp = 2 powi (int k - 52)"
  define y where "y = of_int (round_half_even (x / ulp)) * ulp"
  from assms(1) have pos: "0 < x" by simp
  from ilog2_ge_one [OF assms(1)] have e: "ilog2 x = int k" and low: "2 ^ k \<le> x"
    by (simp_all add: k_def)
  have ulp_pos: "0 < ulp" by (simp add: ulp_def)
  have ulp_eq: "ulp = 2 ^ k / 2 ^ 52"
    by (simp add: ulp_def power_int_diff)
  have "\<bar>of_int (round_half_even (x / ulp)) - x / ulp\<bar> \<le> 1 / 2"
    by (rule round_half_even_error)
  then have "\<bar>of_int (round_half_even (x / ulp)) - x / ulp\<bar> * ulp \<le> 1 / 2 * ulp"
    using ulp_pos by (intro mult_right_mono) simp_all
  moreover have "\<bar>of_int (round_half_even (x / ulp)) - x / ulp\<bar> * ulp = \<bar>y - x\<bar>"
  proof -
    have "(of_int (round_half_even (x / ulp)) - x / ulp) * ulp = y - x"
      using ulp_pos by (simp add: y_def left_diff_distrib)
    then have "\<bar>y - x\<bar> = \<bar>of_int (round_half_even (x / ulp)) - x / ulp\<bar> * \<bar>ulp\<bar>"
      by (simp only: abs_mult [symmetric])
    with ulp_pos show ?thesis by simp
  qed
  ultimately have "\<bar>y - x\<bar> \<le> ulp / 2" by simp
  also have "ulp / 2 = 2 ^ k / 2 ^ 53" by (simp add: ulp_eq)
  also have "\<dots> \<le> x / 2 ^ 53" using low by (simp add: divide_right_mono)
  finally have err: "\<bar>y - x\<bar> \<le> x / 2 ^ 53" .
  then have "y \<le> x + x / 2 ^ 53" by linarith
  with assms(2) have fits: "\<not> 2 powi 1024 \<le> y" by linarith
  have "max (ilog2 \<bar>x\<bar>) (- 1022) = int k" using pos e by simp
  then have "round_float64 x = Finite y"
    using pos fits by (simp add: round_float64_def Let_def y_def ulp_def)
  with err show ?thesis by blast
qed

lemma round_float64_int:
  assumes "\<bar>n\<bar> < 2 ^ 53"
  shows "round_float64 (of_int n) = Finite (of_int n)"
proof (cases "n = 0")
  case True
  then show ?thesis by (simp add: round_float64_def)
next
  case False
  define a where "a = nat \<bar>n\<bar>"
  define k where "k = bit_length a - 1"
  define x :: rat where "x = of_int \<bar>n\<bar>"
  from False have one: "1 \<le> x" by (simp add: x_def)
  have "\<lfloor>x\<rfloor> = \<bar>n\<bar>" unfolding x_def by (rule floor_of_int)
  then have fl: "nat \<lfloor>x\<rfloor> = a" by (simp add: a_def)
  from ilog2_ge_one [OF one] have e: "ilog2 x = int k"
    by (simp add: fl k_def)
  from assms have "a < 2 ^ 53" by (simp add: a_def)
  then have "bit_length a \<le> 53" by (rule bit_length_le)
  then have k52: "k \<le> 52" by (simp add: k_def)
  define j where "j = 52 - k"
  define ulp :: rat where "ulp = 2 powi (int k - 52)"
  define y where "y = of_int (round_half_even (x / ulp)) * ulp"
  have ulp_eq: "ulp = 1 / 2 ^ j"
    using k52 by (simp add: ulp_def j_def power_int_diff power_diff)
  have "x / ulp = of_int (\<bar>n\<bar> * 2 ^ j)" by (simp add: ulp_eq x_def)
  then have "round_half_even (x / ulp) = \<bar>n\<bar> * 2 ^ j"
    by (simp only: round_half_even_int)
  then have y_eq: "y = x" by (simp add: y_def ulp_eq x_def)
  from assms have "\<bar>n\<bar> < (2 ^ 53 :: int)" by simp
  then have "(of_int \<bar>n\<bar> :: rat) < of_int (2 ^ 53)" by (simp only: of_int_less_iff)
  then have "x < 2 ^ 53" by (simp add: x_def)
  also have "(2::rat) ^ 53 \<le> 2 powi 1024" by simp
  finally have fits: "\<not> 2 powi 1024 \<le> y" by (simp add: y_eq)
  have absx: "\<bar>(of_int n :: rat)\<bar> = x" by (simp add: x_def)
  have "max (ilog2 x) (- 1022) = int k" using e by simp
  then have "round_float64 (of_int n) = Finite (sgn (of_int n) * y)"
    using False fits by (simp add: round_float64_def Let_def absx y_def ulp_def)
  moreover have "sgn (of_int n :: rat) * x = of_int n"
    by (simp add: x_def sgn_if)
  ultimately show ?thesis by (simp add: y_eq)
qed

lemma float64_Second: "float64_of_int64 Second = Finite 1000000000"
  by (simp add: float64_of_int64_small Second_def)

lemma Trace_duration_default: "Trace_duration P (Finite 1) = 1000000000"
proof -
  have "round_float64 (of_int 1000000000) = Finite (of_int 1000000000)"
    by (rule round_float64_int) simp
  then have "fmul (Finite 1) (float64_of_int64 Second) = Finite 1000000000"
    by (simp add: float64_Second)
  then show ?thesis
    by (simp add: Trace_duration_def int64_of_float64_def)
qed

lemma Trace_duration_bound:
  assumes "1 \<le> q * 1000000000"
    and "q * 1000000000 + q * 1000000000 / 2 ^ 53 < 2 ^ 63"
  shows "of_int (sint (Trace_duration P (Finite q))) \<le> q * 1000000000 + q * 1000000000 / 2 ^ 53 \<and>
    q * 1000000000 - q * 1000000000 / 2 ^ 53 - 1 < of_int (sint (Trace_duration P (Finite q)))"
proof -
  define x where "x = q * 1000000000"
  from assms have one: "1 \<le> x" and small: "x + x / 2 ^ 53 < 2 ^ 63"
    by (simp_all add: x_def)
  have "(2::rat) ^ 63 \<le> 2 powi 1024" by simp
  with small have "x + x / 2 ^ 53 < 2 powi 1024" by linarith
  from round_float64_normal [OF one this]
  obtain y where y: "round_float64 x = Finite y" and err: "\<bar>y - x\<bar> \<le> x / 2 ^ 53"
    by blast
  have "x / 2 ^ 53 \<le> x" using one by (simp add: field_simps)
  with err have ypos: "0 \<le> y" by linarith
  define t where "t = \<lfloor>y\<rfloor>"
  have t: "of_int t \<le> y" "y < of_int t + 1" unfolding t_def by linarith+
  from ypos have t0: "0 \<le> t" by (simp add: t_def)
  from err small t have "(of_int t :: rat) < 2 ^ 63" by linarith
  then have "(of_int t :: rat) < of_int (2 ^ 63)" by simp
  then have t63: "t < 2 ^ 63" by (simp only: of_int_less_iff)
  have "fmul (Finite q) (float64_of_int64 Second) = Finite y"
    using y by (simp add: float64_Second x_def)
  then have "Trace_duration P (Finite q) = word_of_int t"
    using ypos t0 t63 by (simp add: Trace_duration_def int64_of_float64_def t_def Let_def)
  moreover have "sint (word_of_int t :: int64) = t"
    using t0 t63 by (simp add: sint_sbintrunc' signed_take_bit_int_eq_self)
  ultimately have d: "sint (Trace_duration P (Finite q)) = t" by simp
  define c where "c = x / 2 ^ 53"
  from err have "y \<le> x + c" "x - c \<le> y" unfolding c_def by linarith+
  with t have "of_int t \<le> x + c \<and> x - c - 1 < of_int t" by linarith
  then show ?thesis unfolding d c_def x_def .
qed

lemma flt_zero_not_fle: "flt (Finite 0) v \<Longrightarrow> \<not> fle v (Finite 0)"
  using flt_not_fge [of "Finite 0" v] by (simp add: fge_def)

lemma float64_sign_cases: "flt (Finite 0) v \<or> fle v (Finite 0) \<or> v = NaN"
  by (cases v) auto

lemma special_NaN: "special ''NaN'' = Some NaN"
  by code_simp

lemma special_samples: "special ''60'' = None" "special ''2.5'' = None" "special ''0'' = None"
  "special ''-5'' = None" "special ''soon'' = None" "special [] = None"
  by (simp_all add: special_def equalIgnoreCase_def to_lower_def)

text \<open>
  C7, as amended. \<open>Trace\<close> parses the \<open>seconds\<close> value with \<open>strconv.ParseFloat\<close>. The
  duration in seconds is the parsed value when the parse succeeds and the value is
  above 0; it is 1 when the parse fails or the value is at most 0, and so when the form
  has no \<open>seconds\<close> value, the empty string being no number; and it is NaN when the
  value parses to NaN, which is neither above 0 nor at most 0. Every parsed value falls
  under one of the three cases. That is the duration the handler uses: it is the one
  held against the write timeout, and when the check passes and the tracer starts, the
  handler starts the tracer, sleeps for \<open>time.Duration(sec*float64(time.Second))\<close> and
  stops the tracer. For the default the sleep is 1000000000 nanoseconds, and for a
  finite duration of \<open>q\<close> seconds with \<open>q\<close> times 1000000000 at least 1 and, with its
  rounding error, below \<open>2 ^ 63\<close>, the sleep in nanoseconds is within one rounding error
  of the product (a \<open>2 ^ 53\<close>th of it) and one truncation of \<open>q\<close> times 1000000000.
\<close>

theorem trace_seconds_default_one:
  "(\<forall>v err. ParseFloat P (FormValue r ''seconds'') = (v, err) \<longrightarrow>
      (err = None \<and> flt (Finite 0) v \<longrightarrow> Trace_seconds P r = v) \<and>
      (fle v (Finite 0) \<or> err \<noteq> None \<longrightarrow> Trace_seconds P r = Finite 1) \<and>
      (err = None \<and> v = NaN \<longrightarrow> Trace_seconds P r = NaN) \<and>
      (flt (Finite 0) v \<or> fle v (Finite 0) \<or> v = NaN)) \<and>
   (Form r ''seconds'' = [] \<and> snd (ParseFloat P []) \<noteq> None \<longrightarrow> Trace_seconds P r = Finite 1) \<and>
   (\<not> durationExceedsWriteTimeout P r (Trace_seconds P r) \<and> fst (trace_Start rt) = None \<longrightarrow>
      new_calls rt (snd (Trace P w r rt)) =
        [CallTraceStart, CallSleep (Trace_duration P (Trace_seconds P r)), CallTraceStop]) \<and>
   Trace_duration P (Finite 1) = 1000000000 \<and>
   (\<forall>q. 1 \<le> q * 1000000000 \<and> q * 1000000000 + q * 1000000000 / 2 ^ 53 < 2 ^ 63 \<longrightarrow>
      of_int (sint (Trace_duration P (Finite q))) \<le> q * 1000000000 + q * 1000000000 / 2 ^ 53 \<and>
      q * 1000000000 - q * 1000000000 / 2 ^ 53 - 1 < of_int (sint (Trace_duration P (Finite q))))"
proof (intro conjI allI impI)
  fix v err
  assume parse: "ParseFloat P (FormValue r ''seconds'') = (v, err)"
  {
    assume "err = None \<and> flt (Finite 0) v"
    then show "Trace_seconds P r = v"
      using parse flt_zero_not_fle [of v] by (simp add: Trace_seconds_def)
  next
    assume "fle v (Finite 0) \<or> err \<noteq> None"
    then show "Trace_seconds P r = Finite 1"
      using parse by (auto simp: Trace_seconds_def)
  next
    assume "err = None \<and> v = NaN"
    then show "Trace_seconds P r = NaN"
      using parse by (simp add: Trace_seconds_def)
  next
    show "flt (Finite 0) v \<or> fle v (Finite 0) \<or> v = NaN"
      by (rule float64_sign_cases)
  }
next
  assume absent: "Form r ''seconds'' = [] \<and> snd (ParseFloat P []) \<noteq> None"
  then have "FormValue r ''seconds'' = []" by (simp add: FormValue_def)
  with absent show "Trace_seconds P r = Finite 1"
    by (cases "ParseFloat P []") (auto simp: Trace_seconds_def)
next
  assume "\<not> durationExceedsWriteTimeout P r (Trace_seconds P r) \<and> fst (trace_Start rt) = None"
  then show "new_calls rt (snd (Trace P w r rt)) =
        [CallTraceStart, CallSleep (Trace_duration P (Trace_seconds P r)), CallTraceStop]"
    by (simp add: Trace_runs)
next
  show "Trace_duration P (Finite 1) = 1000000000"
    by (rule Trace_duration_default)
next
  fix q :: rat
  assume "1 \<le> q * 1000000000 \<and> q * 1000000000 + q * 1000000000 / 2 ^ 53 < 2 ^ 63"
  then have "of_int (sint (Trace_duration P (Finite q))) \<le> q * 1000000000 + q * 1000000000 / 2 ^ 53 \<and>
      q * 1000000000 - q * 1000000000 / 2 ^ 53 - 1 < of_int (sint (Trace_duration P (Finite q)))"
    by (intro Trace_duration_bound) simp_all
  then show "of_int (sint (Trace_duration P (Finite q))) \<le> q * 1000000000 + q * 1000000000 / 2 ^ 53"
    and "q * 1000000000 - q * 1000000000 / 2 ^ 53 - 1 < of_int (sint (Trace_duration P (Finite q)))"
    by simp_all
qed

text \<open>
  C7 as stated fails: with \<open>seconds=NaN\<close> the parse succeeds, the value is not above 0,
  and yet the duration is not 1 second but NaN; with no write timeout the tracer
  starts and the handler sleeps for the conversion of NaN to \<open>time.Duration\<close>, which
  the language leaves to the implementation.
\<close>

theorem trace_seconds_default_one_counterexample:
  "\<forall>P. ParseFloat P (FormValue (sample_request [(''seconds'', ''NaN'')] None) ''seconds'')
         = (NaN, None) \<and>
       \<not> flt (Finite 0) NaN \<and>
       Trace_seconds P (sample_request [(''seconds'', ''NaN'')] None) = NaN \<and>
       NaN \<noteq> Finite 1 \<and>
       new_calls sample_runtime (snd (Trace P fresh_response
         (sample_request [(''seconds'', ''NaN'')] None) sample_runtime)) =
         [CallTraceStart, CallSleep (int64_overflow P NaN), CallTraceStop]"
proof
  fix P
  let ?r = "sample_request [(''seconds'', ''NaN'')] None"
  have parse: "ParseFloat P (FormValue ?r ''seconds'') = (NaN, None)"
    by (simp add: ParseFloat_def sample_request_def FormValue_def special_NaN)
  then have sec: "Trace_seconds P ?r = NaN"
    by (simp add: Trace_seconds_def)
  have "new_calls sample_runtime (snd (Trace P fresh_response ?r sample_runtime)) =
     [CallTraceStart, CallSleep (Trace_duration P (Trace_seconds P ?r)), CallTraceStop]"
    by (rule Trace_runs) (simp_all add: sample_no_server sample_idle)
  moreover have "Trace_duration P NaN = int64_overflow P NaN"
    by (simp add: Trace_duration_def int64_of_float64_def float64_Second)
  ultimately show "ParseFloat P (FormValue ?r ''seconds'') = (NaN, None) \<and>
       \<not> flt (Finite 0) NaN \<and> Trace_seconds P ?r = NaN \<and> NaN \<noteq> Finite 1 \<and>
       new_calls sample_runtime (snd (Trace P fresh_response ?r sample_runtime)) =
         [CallTraceStart, CallSleep (int64_overflow P NaN), CallTraceStop]"
    using parse sec by simp
qed

lemma sample_floats:
  "ParseFloat sample_platform (FormValue (sample_request [(''seconds'', ''2.5'')] None) ''seconds'')
     = (Finite (5 / 2), None)"
  "ParseFloat sample_platform (FormValue (sample_request [(''seconds'', ''0'')] None) ''seconds'')
     = (Finite 0, None)"
  "ParseFloat sample_platform (FormValue (sample_request [(''seconds'', ''-5'')] None) ''seconds'')
     = (Finite (- 5), None)"
  "ParseFloat sample_platform (FormValue (sample_request [(''seconds'', ''soon'')] None) ''seconds'')
     = (Finite 0, Some ErrSyntax)"
  "ParseFloat sample_platform (FormValue (sample_request [(''seconds'', ''NaN'')] None) ''seconds'')
     = (NaN, None)"
  "ParseFloat sample_platform [] = (Finite 0, Some ErrSyntax)"
  by (simp_all add: ParseFloat_def special_samples special_NaN sample_platform_def
      sample_ParseFloat_def sample_request_def FormValue_def)

lemma sample_duration: "Trace_duration P (Finite (5 / 2)) = 2500000000"
proof -
  have "round_float64 (of_int 2500000000) = Finite (of_int 2500000000)"
    by (rule round_float64_int) simp
  then have "fmul (Finite (5 / 2)) (float64_of_int64 Second) = Finite 2500000000"
    by (simp add: float64_Second)
  then show ?thesis
    by (simp add: Trace_duration_def int64_of_float64_def)
qed

text \<open>
  The theorem at \<open>seconds=2.5\<close>, \<open>0\<close>, \<open>-5\<close>, \<open>soon\<close> and \<open>NaN\<close> and at a request with no
  \<open>seconds\<close> value: 2.5 seconds are a sleep of 2500000000 nanoseconds.
\<close>

theorem trace_seconds_default_one_witness:
  "ParseFloat sample_platform (FormValue (sample_request [(''seconds'', ''2.5'')] None) ''seconds'')
     = (Finite (5 / 2), None) \<and> flt (Finite 0) (Finite (5 / 2)) \<and>
   Trace_seconds sample_platform (sample_request [(''seconds'', ''2.5'')] None) = Finite (5 / 2) \<and>
   ParseFloat sample_platform (FormValue (sample_request [(''seconds'', ''0'')] None) ''seconds'')
     = (Finite 0, None) \<and> fle (Finite 0) (Finite 0) \<and>
   Trace_seconds sample_platform (sample_request [(''seconds'', ''0'')] None) = Finite 1 \<and>
   ParseFloat sample_platform (FormValue (sample_request [(''seconds'', ''-5'')] None) ''seconds'')
     = (Finite (- 5), None) \<and> fle (Finite (- 5)) (Finite 0) \<and>
   Trace_seconds sample_platform (sample_request [(''seconds'', ''-5'')] None) = Finite 1 \<and>
   ParseFloat sample_platform (FormValue (sample_request [(''seconds'', ''soon'')] None) ''seconds'')
     = (Finite 0, Some ErrSyntax) \<and>
   Trace_seconds sample_platform (sample_request [(''seconds'', ''soon'')] None) = Finite 1 \<and>
   ParseFloat sample_platform (FormValue (sample_request [(''seconds'', ''NaN'')] None) ''seconds'')
     = (NaN, None) \<and>
   Trace_seconds sample_platform (sample_request [(''seconds'', ''NaN'')] None) = NaN \<and>
   Form (sample_request [] None) ''seconds'' = [] \<and>
   snd (ParseFloat sample_platform []) = Some ErrSyntax \<and>
   Trace_seconds sample_platform (sample_request [] None) = Finite 1 \<and>
   \<not> durationExceedsWriteTimeout sample_platform (sample_request [(''seconds'', ''2.5'')] None)
     (Finite (5 / 2)) \<and>
   fst (trace_Start sample_runtime) = None \<and>
   new_calls sample_runtime (snd (Trace sample_platform fresh_response
     (sample_request [(''seconds'', ''2.5'')] None) sample_runtime)) =
     [CallTraceStart, CallSleep 2500000000, CallTraceStop] \<and>
   (1::rat) \<le> 5 / 2 * 1000000000 \<and>
   (5 / 2 * 1000000000 + 5 / 2 * 1000000000 / 2 ^ 53 :: rat) < 2 ^ 63 \<and>
   (of_int (sint (Trace_duration sample_platform (Finite (5 / 2)))) :: rat) = 2500000000"
proof -
  from trace_seconds_default_one [of sample_platform "sample_request [(''seconds'', ''2.5'')] None" sample_runtime fresh_response]
    trace_seconds_default_one [of sample_platform "sample_request [(''seconds'', ''0'')] None" sample_runtime fresh_response]
    trace_seconds_default_one [of sample_platform "sample_request [(''seconds'', ''-5'')] None" sample_runtime fresh_response]
    trace_seconds_default_one [of sample_platform "sample_request [(''seconds'', ''soon'')] None" sample_runtime fresh_response]
    trace_seconds_default_one [of sample_platform "sample_request [(''seconds'', ''NaN'')] None" sample_runtime fresh_response]
    trace_seconds_default_one [of sample_platform "sample_request [] None" sample_runtime fresh_response]
  show ?thesis
    by (simp add: sample_floats sample_seconds sample_no_server sample_idle sample_duration)
qed


section \<open>Symbol\<close>

lemma Split_not_Nil: "Split s sep \<noteq> []"
  by (induction s) (auto split: list.splits)

lemma Split_without_sep: "sep \<notin> set x \<Longrightarrow> Split x sep = [x]"
  by (induction x) auto

lemma Split_at_sep: "sep \<notin> set x \<Longrightarrow> Split (x @ sep # s) sep = x # Split s sep"
  by (induction x) auto

lemma takeWhile_found:
  "d \<in> set s \<Longrightarrow>
   length (takeWhile (\<lambda>c. c \<noteq> d) s) < length s \<and>
   s = takeWhile (\<lambda>c. c \<noteq> d) s @ d # tl (dropWhile (\<lambda>c. c \<noteq> d) s)"
  by (induction s) auto

lemma takeWhile_not_found: "d \<notin> set s \<Longrightarrow> takeWhile (\<lambda>c. c \<noteq> d) s = s"
  by (induction s) auto

lemma ReadSlice_short_found:
  assumes "length (unread b) < defaultBufSize" and "delim \<in> set (unread b)"
  shows "ReadSlice delim b =
    ((takeWhile (\<lambda>c. c \<noteq> delim) (unread b) @ [delim], None),
     b\<lparr>unread := tl (dropWhile (\<lambda>c. c \<noteq> delim) (unread b))\<rparr>)"
proof -
  let ?s = "unread b"
  let ?x = "takeWhile (\<lambda>c. c \<noteq> delim) ?s"
  let ?rest = "tl (dropWhile (\<lambda>c. c \<noteq> delim) ?s)"
  from takeWhile_found [OF assms(2)]
  have lt: "length ?x < length ?s" and split: "?s = ?x @ delim # ?rest"
    by simp_all
  have "take (length ?x + 1) (?x @ delim # ?rest) = ?x @ [delim]" by simp
  with split have tk: "take (length ?x + 1) ?s = ?x @ [delim]" by simp
  have "drop (length ?x + 1) (?x @ delim # ?rest) = ?rest" by simp
  with split have dr: "drop (length ?x + 1) ?s = ?rest" by simp
  from assms(1) lt tk dr show ?thesis
    by (simp add: ReadSlice_def Let_def)
qed

lemma ReadSlice_short_end:
  assumes "length (unread b) < defaultBufSize" and "delim \<notin> set (unread b)"
  shows "ReadSlice delim b = ((unread b, Some (src_err b)), b\<lparr>unread := []\<rparr>)"
  using assms by (simp add: ReadSlice_def Let_def takeWhile_not_found)

lemma read_tokens_short:
  "length (unread b) < defaultBufSize \<Longrightarrow>
   read_tokens b =
     (butlast (Split (unread b) (CHR ''+'')), last (Split (unread b) (CHR ''+'')), src_err b)"
proof (induction b rule: read_tokens.induct)
  case (1 b)
  let ?s = "unread b"
  let ?x = "takeWhile (\<lambda>c. c \<noteq> CHR ''+'') ?s"
  let ?rest = "tl (dropWhile (\<lambda>c. c \<noteq> CHR ''+'') ?s)"
  show ?case
  proof (cases "CHR ''+'' \<in> set ?s")
    case True
    note rs = ReadSlice_short_found [OF "1.prems" True]
    have len: "length ?rest < defaultBufSize"
      using "1.prems" length_dropWhile_le [of "\<lambda>c. c \<noteq> CHR ''+''" ?s] by simp
    from takeWhile_found [OF True] have split: "?s = ?x @ CHR ''+'' # ?rest" by simp
    have "CHR ''+'' \<notin> set ?x"
      by (auto dest: set_takeWhileD)
    then have "Split (?x @ CHR ''+'' # ?rest) (CHR ''+'') = ?x # Split ?rest (CHR ''+'')"
      by (rule Split_at_sep)
    with split have sp: "Split ?s (CHR ''+'') = ?x # Split ?rest (CHR ''+'')" by simp
    have ih: "read_tokens (b\<lparr>unread := ?rest\<rparr>) =
      (butlast (Split ?rest (CHR ''+'')), last (Split ?rest (CHR ''+'')), src_err b)"
      using "1.IH" [OF rs [symmetric] refl refl] len by simp
    show ?thesis
      by (subst read_tokens.simps) (simp add: rs ih sp Split_not_Nil)
  next
    case False
    note rs = ReadSlice_short_end [OF "1.prems" False]
    from False have "Split ?s (CHR ''+'') = [?s]" by (rule Split_without_sep)
    then show ?thesis
      by (subst read_tokens.simps) (simp add: rs)
  qed
qed

lemma ReadSlice_src_err: "src_err (snd (ReadSlice delim b)) = src_err b"
  by (simp add: ReadSlice_def Let_def)

lemma read_tokens_error:
  "snd (snd (read_tokens b)) = src_err b \<or> snd (snd (read_tokens b)) = ErrBufferFull"
proof (induction b rule: read_tokens.induct)
  case (1 b)
  obtain word err b1 where rs: "ReadSlice (CHR ''+'') b = ((word, err), b1)"
    by (metis prod.exhaust)
  show ?case
  proof (cases err)
    case None
    with rs "1.IH" have "snd (snd (read_tokens b1)) = src_err b1 \<or> snd (snd (read_tokens b1)) = ErrBufferFull"
      by auto
    moreover from rs have "src_err b1 = src_err b"
      using ReadSlice_src_err [of "CHR ''+''" b] by simp
    moreover from rs None have "snd (snd (read_tokens b)) = snd (snd (read_tokens b1))"
      by (subst read_tokens.simps) (simp split: prod.splits)
    ultimately show ?thesis by simp
  next
    case (Some e)
    with rs have "read_tokens b = ([], word, e)"
      by (subst read_tokens.simps) simp
    moreover from rs Some have "e = src_err b \<or> e = ErrBufferFull"
      by (auto simp: ReadSlice_def Let_def split: if_splits)
    ultimately show ?thesis by simp
  qed
qed

lemma symbol_loop_tokens:
  "symbol_loop rt b buf =
     (case read_tokens b of (ws, lastw, err) \<Rightarrow>
        buf @ concat (map (symbol_line rt) ws) @ symbol_line rt lastw @
        (if err = EOF then [] else ''reading request: '' @ Error err @ [CHR 0x0A]))"
proof (induction rt b buf rule: symbol_loop.induct)
  case (1 rt b buf)
  obtain word err b1 where rs: "ReadSlice (CHR ''+'') b = ((word, err), b1)"
    by (metis prod.exhaust)
  show ?case
  proof (cases err)
    case None
    with rs have step: "symbol_loop rt b buf = symbol_loop rt b1 (buf @ symbol_line rt (butlast word))"
      by (subst symbol_loop.simps) simp
    from rs None have toks: "read_tokens b =
      (case read_tokens b1 of (ws, lastw, err) \<Rightarrow> (butlast word # ws, lastw, err))"
      by (subst read_tokens.simps) simp
    from rs None have "symbol_loop rt b1 (buf @ symbol_line rt (butlast word)) =
      (case read_tokens b1 of (ws, lastw, err) \<Rightarrow>
        (buf @ symbol_line rt (butlast word)) @ concat (map (symbol_line rt) ws) @
        symbol_line rt lastw @
        (if err = EOF then [] else ''reading request: '' @ Error err @ [CHR 0x0A]))"
      by (intro "1.IH") auto
    with step toks show ?thesis
      by (auto split: prod.splits)
  next
    case (Some e)
    with rs have "symbol_loop rt b buf =
      (let buf1 = buf @ symbol_line rt word in
       if e \<noteq> EOF then buf1 @ ''reading request: '' @ Error e @ [CHR 0x0A] else buf1)"
      by (subst symbol_loop.simps) simp
    moreover from rs Some have "read_tokens b = ([], word, e)"
      by (subst read_tokens.simps) simp
    ultimately show ?thesis by (simp add: Let_def)
  qed
qed

lemma sample_hex: "format_sharp_x 26 = ''0x1a''" "format_sharp_x 43 = ''0x2b''"
  by code_simp+

lemma sample_addresses: "ParseUint ''1a'' 0 64 = (0, Some ErrSyntax)" "ParseUint ''2b'' 0 64 = (0, Some ErrSyntax)"
  "ParseUint ''0'' 0 64 = (0, None)" "ParseUint ''0x1a'' 0 64 = (26, None)"
  "ParseUint ''0x2b'' 0 64 = (43, None)"
  by (simp_all add: strconv_defs)

lemma symbol_lines: "symbol_line rt ''1a'' = []" "symbol_line rt ''2b'' = []" "symbol_line rt ''0'' = []"
  "symbol_line rt ''0x1a'' =
     (case FuncForPC rt 26 of None \<Rightarrow> [] | Some f \<Rightarrow> ''0x1a '' @ f @ [CHR 0x0A])"
  "symbol_line rt ''0x2b'' =
     (case FuncForPC rt 43 of None \<Rightarrow> [] | Some f \<Rightarrow> ''0x2b '' @ f @ [CHR 0x0A])"
  by (simp_all add: symbol_line_def sample_addresses sample_hex split: option.splits)

lemma Symbol_body:
  "rw_body (fst (Symbol w r rt)) = rw_body w @ symbol_loop rt (Symbol_reader r) (''num_symbols: 1'' @ [CHR 0x0A])"
  by (simp add: Symbol_def Let_def Write_def WriteHeader_def setHeader_def split: option.splits)

lemma post_reader: "Symbol_reader (post_request bs e) = \<lparr>unread = bs, src_err = e\<rparr>"
  by (simp add: Symbol_reader_def post_request_def NewReader_def)

text \<open>
  C9. For every request, with \<open>ws\<close> the words that \<open>ReadSlice\<close> returned without an
  error, \<open>lastw\<close> the word it returned together with the first error and \<open>err\<close> that
  error: the body written is the first line, then what each word of \<open>ws\<close> and then
  \<open>lastw\<close> resolve to, in this order, and then, when \<open>err\<close> is not the end of the input,
  the one line \<open>reading request: err\<close>; nothing follows. So the word on which the error
  was detected is still processed, an error other than the end of the input adds
  exactly one line, the end of the input adds none, and no word is read after the
  error. The error is the error of the source or the full buffer of the reader; for
  an input shorter than the buffer, the words are the fields of the input between the
  \<open>+\<close> signs and the error is the error of the source.
\<close>

theorem symbol_stops_at_first_error:
  "(case read_tokens (Symbol_reader r) of (ws, lastw, err) \<Rightarrow>
      rw_body (fst (Symbol w r rt)) =
        rw_body w @ ''num_symbols: 1'' @ [CHR 0x0A] @
        concat (map (symbol_line rt) ws) @ symbol_line rt lastw @
        (if err = EOF then [] else ''reading request: '' @ Error err @ [CHR 0x0A]) \<and>
      (err = src_err (Symbol_reader r) \<or> err = ErrBufferFull) \<and>
      (length (unread (Symbol_reader r)) < defaultBufSize \<longrightarrow>
         ws @ [lastw] = Split (unread (Symbol_reader r)) (CHR ''+'') \<and>
         err = src_err (Symbol_reader r)))"
proof -
  obtain ws lastw err where toks: "read_tokens (Symbol_reader r) = (ws, lastw, err)"
    by (metis prod_cases3)
  have body: "rw_body (fst (Symbol w r rt)) =
        rw_body w @ ''num_symbols: 1'' @ [CHR 0x0A] @
        concat (map (symbol_line rt) ws) @ symbol_line rt lastw @
        (if err = EOF then [] else ''reading request: '' @ Error err @ [CHR 0x0A])"
    by (simp add: Symbol_body symbol_loop_tokens toks)
  have origin: "err = src_err (Symbol_reader r) \<or> err = ErrBufferFull"
    using read_tokens_error [of "Symbol_reader r"] by (simp add: toks)
  have short: "ws @ [lastw] = Split (unread (Symbol_reader r)) (CHR ''+'') \<and>
         err = src_err (Symbol_reader r)"
    if "length (unread (Symbol_reader r)) < defaultBufSize"
    using read_tokens_short [OF that] toks
    by (simp add: Split_not_Nil)
  from body origin short show ?thesis
    by (simp add: toks)
qed

theorem symbol_stops_at_first_error_witness:
  "read_tokens (Symbol_reader (post_request ''0x1a+0x2b+0'' (ReadError ''unexpected EOF''))) =
     ([''0x1a'', ''0x2b''], ''0'', ReadError ''unexpected EOF'') \<and>
   length (unread (Symbol_reader (post_request ''0x1a+0x2b+0'' (ReadError ''unexpected EOF''))))
     < defaultBufSize \<and>
   rw_body (fst (Symbol fresh_response (post_request ''0x1a+0x2b+0'' (ReadError ''unexpected EOF''))
     sample_runtime)) =
     ''num_symbols: 1'' @ [CHR 0x0A] @ ''0x1a main.main'' @ [CHR 0x0A] @
     ''0x2b main.f'' @ [CHR 0x0A] @ ''reading request: unexpected EOF'' @ [CHR 0x0A]"
proof -
  have toks:
    "read_tokens \<lparr>unread = ''0x1a+0x2b+0'', src_err = ReadError ''unexpected EOF''\<rparr> =
     ([''0x1a'', ''0x2b''], ''0'', ReadError ''unexpected EOF'')"
    by (subst read_tokens.simps, simp add: ReadSlice_def defaultBufSize_def Let_def)+
  from symbol_stops_at_first_error
    [where r = "post_request ''0x1a+0x2b+0'' (ReadError ''unexpected EOF'')"
       and w = fresh_response and rt = sample_runtime]
  show ?thesis
    by (simp add: post_reader toks symbol_lines defaultBufSize_def fresh_response_def
        sample_runtime_def)
qed

text \<open>
  C3, as amended. For the body \<open>0x1a+0x2b+0\<close> the handler writes the first line, then
  a line \<open>0x1a name\<close> when the symbol table has a function at 0x1a, then a line
  \<open>0x2b name\<close> when it has one at 0x2b, and nothing for \<open>0\<close>. For the body \<open>1a+2b+0\<close> it
  writes the first line alone, whatever the symbol table holds. For every request,
  what the handler writes begins with the line \<open>num_symbols: 1\<close>.
\<close>

theorem symbol_resolves_prefixed_addresses:
  "rw_body (fst (Symbol w (post_request ''0x1a+0x2b+0'' EOF) rt)) =
     rw_body w @ ''num_symbols: 1'' @ [CHR 0x0A] @
     (case FuncForPC rt 26 of None \<Rightarrow> [] | Some f \<Rightarrow> ''0x1a '' @ f @ [CHR 0x0A]) @
     (case FuncForPC rt 43 of None \<Rightarrow> [] | Some f \<Rightarrow> ''0x2b '' @ f @ [CHR 0x0A]) \<and>
   rw_body (fst (Symbol w (post_request ''1a+2b+0'' EOF) rt)) =
     rw_body w @ ''num_symbols: 1'' @ [CHR 0x0A] \<and>
   (\<exists>rest. rw_body (fst (Symbol w r rt)) = rw_body w @ ''num_symbols: 1'' @ [CHR 0x0A] @ rest)"
proof (intro conjI)
  have "read_tokens \<lparr>unread = ''0x1a+0x2b+0'', src_err = EOF\<rparr> = ([''0x1a'', ''0x2b''], ''0'', EOF)"
    by (subst read_tokens.simps, simp add: ReadSlice_def defaultBufSize_def Let_def)+
  then show "rw_body (fst (Symbol w (post_request ''0x1a+0x2b+0'' EOF) rt)) =
     rw_body w @ ''num_symbols: 1'' @ [CHR 0x0A] @
     (case FuncForPC rt 26 of None \<Rightarrow> [] | Some f \<Rightarrow> ''0x1a '' @ f @ [CHR 0x0A]) @
     (case FuncForPC rt 43 of None \<Rightarrow> [] | Some f \<Rightarrow> ''0x2b '' @ f @ [CHR 0x0A])"
    by (simp add: Symbol_body post_reader symbol_loop_tokens symbol_lines)
next
  have "read_tokens \<lparr>unread = ''1a+2b+0'', src_err = EOF\<rparr> = ([''1a'', ''2b''], ''0'', EOF)"
    by (subst read_tokens.simps, simp add: ReadSlice_def defaultBufSize_def Let_def)+
  then show "rw_body (fst (Symbol w (post_request ''1a+2b+0'' EOF) rt)) =
     rw_body w @ ''num_symbols: 1'' @ [CHR 0x0A]"
    by (simp add: Symbol_body post_reader symbol_loop_tokens symbol_lines)
next
  obtain ws lastw err where "read_tokens (Symbol_reader r) = (ws, lastw, err)"
    by (metis prod_cases3)
  then show "\<exists>rest. rw_body (fst (Symbol w r rt)) = rw_body w @ ''num_symbols: 1'' @ [CHR 0x0A] @ rest"
    by (simp add: Symbol_body symbol_loop_tokens)
qed

text \<open>
  C3 as stated fails: with functions at 0x1a and at 0x2b in the symbol table, the body
  \<open>1a+2b+0\<close> gets the first line and no line for either token.
\<close>

theorem symbol_resolves_prefixed_addresses_counterexample:
  "FuncForPC sample_runtime 26 = Some ''main.main'' \<and>
   FuncForPC sample_runtime 43 = Some ''main.f'' \<and>
   rw_body (fst (Symbol fresh_response (post_request ''1a+2b+0'' EOF) sample_runtime)) =
     ''num_symbols: 1'' @ [CHR 0x0A]"
proof -
  have "read_tokens \<lparr>unread = ''1a+2b+0'', src_err = EOF\<rparr> = ([''1a'', ''2b''], ''0'', EOF)"
    by (subst read_tokens.simps, simp add: ReadSlice_def defaultBufSize_def Let_def)+
  then have "rw_body (fst (Symbol fresh_response (post_request ''1a+2b+0'' EOF) sample_runtime)) =
     ''num_symbols: 1'' @ [CHR 0x0A]"
    by (simp add: Symbol_body post_reader symbol_loop_tokens symbol_lines fresh_response_def)
  then show ?thesis by (simp add: sample_runtime_def)
qed

theorem symbol_resolves_prefixed_addresses_witness:
  "rw_body (fst (Symbol fresh_response (post_request ''0x1a+0x2b+0'' EOF) sample_runtime)) =
     ''num_symbols: 1'' @ [CHR 0x0A] @ ''0x1a main.main'' @ [CHR 0x0A] @ ''0x2b main.f'' @ [CHR 0x0A]"
  using symbol_resolves_prefixed_addresses [of fresh_response sample_runtime]
  by (simp add: fresh_response_def sample_runtime_def)


section \<open>Cmdline\<close>

lemma Split_Join:
  "xs \<noteq> [] \<Longrightarrow> \<forall>x \<in> set xs. sep \<notin> set x \<Longrightarrow> Split (Join xs [sep]) sep = xs"
  by (induction xs "[sep]" rule: Join.induct) (auto simp: Split_without_sep Split_at_sep)

lemma Cmdline_body:
  "rw_body (fst (Cmdline P w r rt)) = rw_body w @ Sprintf P (Join (Args rt) [CHR 0x00])"
  by (simp add: Cmdline_def Write_def WriteHeader_def setHeader_def split: option.splits)

text \<open>
  C2. \<open>Cmdline\<close> hands the joined arguments to the formatter as its format, so what it
  writes is the formatted text and not the arguments themselves. With the arguments
  \<open>prog\<close> and \<open>%d\<close>, and a formatter that writes \<open>%!d(MISSING)\<close> for the verb \<open>%d\<close> that
  has no operand (as package \<open>fmt\<close> documents), the body split at the NUL bytes is
  \<open>prog\<close> and \<open>%!d(MISSING)\<close>: not the argument vector.
\<close>

theorem cmdline_percent_argument:
  assumes "Args rt = [''prog'', ''%d'']"
    and "Sprintf P (''prog'' @ [CHR 0x00] @ ''%d'') = ''prog'' @ [CHR 0x00] @ ''%!d(MISSING)''"
  shows "Split (rw_body (fst (Cmdline P fresh_response r rt))) (CHR 0x00) = [''prog'', ''%!d(MISSING)''] \<and>
    Split (rw_body (fst (Cmdline P fresh_response r rt))) (CHR 0x00) \<noteq> Args rt"
proof -
  from assms have "rw_body (fst (Cmdline P fresh_response r rt)) = ''prog'' @ [CHR 0x00] @ ''%!d(MISSING)''"
    by (simp add: Cmdline_body fresh_response_def)
  then have "Split (rw_body (fst (Cmdline P fresh_response r rt))) (CHR 0x00) = [''prog'', ''%!d(MISSING)'']"
    by simp
  with assms(1) show ?thesis by simp
qed

theorem cmdline_percent_argument_witness:
  "Args (sample_runtime\<lparr>Args := [''prog'', ''%d'']\<rparr>) = [''prog'', ''%d''] \<and>
   Sprintf sample_platform (''prog'' @ [CHR 0x00] @ ''%d'') = ''prog'' @ [CHR 0x00] @ ''%!d(MISSING)'' \<and>
   Split (rw_body (fst (Cmdline sample_platform fresh_response (sample_request [] None)
     (sample_runtime\<lparr>Args := [''prog'', ''%d'']\<rparr>)))) (CHR 0x00) = [''prog'', ''%!d(MISSING)'']"
proof -
  have a: "Args (sample_runtime\<lparr>Args := [''prog'', ''%d'']\<rparr>) = [''prog'', ''%d'']" by simp
  have f: "Sprintf sample_platform (''prog'' @ [CHR 0x00] @ ''%d'') = ''prog'' @ [CHR 0x00] @ ''%!d(MISSING)''"
    by (simp add: sample_platform_def)
  from cmdline_percent_argument [OF a f, of "sample_request [] None"] a f show ?thesis by simp
qed

text \<open>
  Where the formatter leaves the joined arguments as they are (as it does a text with
  no \<open>%\<close>), the body split at the NUL bytes is the argument vector, for a vector that is
  not empty and whose arguments hold no NUL byte.
\<close>

theorem cmdline_echo:
  assumes "Args rt \<noteq> []" and "\<forall>a \<in> set (Args rt). CHR 0x00 \<notin> set a"
    and "Sprintf P (Join (Args rt) [CHR 0x00]) = Join (Args rt) [CHR 0x00]"
  shows "Split (rw_body (fst (Cmdline P fresh_response r rt))) (CHR 0x00) = Args rt"
  using assms by (simp add: Cmdline_body fresh_response_def Split_Join)

end
